theory Spec2Isabelle
  imports Main
begin

section \<open>Machine integers\<close>

text \<open>
  The C integers of \<^verbatim>\<open>alucard_hotplug.c\<close> are modelled as \<^typ>\<open>int\<close> with the
  conversions written out: \<open>u32\<close> and \<open>u64\<close> are the conversions to
  \<^verbatim>\<open>unsigned int\<close> and to a 64-bit unsigned value, \<open>s32\<close> and \<open>s64\<close> the
  conversions to \<^verbatim>\<open>int\<close> and \<^verbatim>\<open>int64_t\<close> (two's complement). The target is 32-bit
  ARM, so \<^verbatim>\<open>unsigned long\<close> is 32 bits wide.
\<close>

definition u32 :: "int \<Rightarrow> int" where
  "u32 x = x mod 2 ^ 32"

definition u64 :: "int \<Rightarrow> int" where
  "u64 x = x mod 2 ^ 64"

definition s32 :: "int \<Rightarrow> int" where
  "s32 x = (x + 2 ^ 31) mod 2 ^ 32 - 2 ^ 31"

definition s64 :: "int \<Rightarrow> int" where
  "s64 x = (x + 2 ^ 63) mod 2 ^ 64 - 2 ^ 63"

section \<open>Constants and data\<close>

text \<open>
  \<^verbatim>\<open>NR_CPUS\<close> comes from the kernel configuration; the threshold tables of the
  branch without \<^verbatim>\<open>CONFIG_CPU_EXYNOS4210\<close> have four rows, one per core of the target.
  The possible cores are \<open>0 ..< NR_CPUS\<close>.
\<close>

definition NR_CPUS :: nat where
  "NR_CPUS = 4"

definition MAX_HOTPLUG_RATE :: int where
  "MAX_HOTPLUG_RATE = 40"

definition DOWN_INDEX :: nat where
  "DOWN_INDEX = 0"

definition UP_INDEX :: nat where
  "UP_INDEX = 1"

definition RQ_AVG_TIMER_RATE :: int where
  "RQ_AVG_TIMER_RATE = 10"

record hotplug_cpuinfo =
  prev_cpu_wall :: int
  prev_cpu_idle :: int
  online :: int
  up_cpu :: int
  up_by_cpu :: int

record hotplug_tuners =
  hotplug_sampling_rate :: int
  hotplug_enable :: int
  cpu_up_rate :: int
  cpu_down_rate :: int
  maxcoreslimit :: int
  accuratecpufreq :: int

text \<open>
  \<open>work\<close> is the pending bit of the sampler's delayed work, \<open>nr_run_wq\<close> tells
  whether the sampler's workqueue has been created (the pointer is not \<^verbatim>\<open>NULL\<close>).
\<close>

record runqueue_data =
  nr_run_avg :: int
  update_rate :: int
  last_time :: int
  total_time :: int
  work :: bool
  nr_run_wq :: bool

text \<open>
  The file's global state. The three work items are represented by their pending bits:
  \<^verbatim>\<open>schedule_work\<close> and \<^verbatim>\<open>schedule_delayed_work\<close> set the bit, the
  \<^verbatim>\<open>cancel\<close> functions clear it, and the workqueue clears it when it starts the
  handler. The threshold tables map a row and a column (\<open>DOWN_INDEX\<close> or
  \<open>UP_INDEX\<close>) to the stored \<^verbatim>\<open>int\<close>.
\<close>

record hp_state =
  od_hotplug_cpuinfo :: "nat \<Rightarrow> hotplug_cpuinfo"
  hotplug_tuners_ins :: hotplug_tuners
  hotplug_freq :: "nat \<Rightarrow> nat \<Rightarrow> int"
  hotplug_load :: "nat \<Rightarrow> nat \<Rightarrow> int"
  hotplug_rq :: "nat \<Rightarrow> nat \<Rightarrow> int"
  rq_data :: runqueue_data
  hotplugging_rate :: int
  other_hotplugging :: bool
  alucard_hotplug_work :: bool
  alucard_hotplug_offline_work :: bool
  alucard_hotplug_online_work :: bool

text \<open>
  What the platform answers during one run of a handler: the online mask, the cumulative
  idle, iowait and wall times of each core (the wall time is what
  \<^verbatim>\<open>get_cpu_iowait_time_us\<close> stores through its second argument), and the two
  frequency sources. One handler run reads one such snapshot.
\<close>

record platform =
  cpu_online :: "nat \<Rightarrow> bool"
  get_cpu_idle_time_us :: "nat \<Rightarrow> int"
  get_cpu_iowait_time_us :: "nat \<Rightarrow> int"
  cpu_wall_time_us :: "nat \<Rightarrow> int"
  acpuclk_get_rate :: "nat \<Rightarrow> int"
  cpufreq_quick_get :: "nat \<Rightarrow> int"

text \<open>
  The calls a handler makes that leave the file: signalling one of the two executors
  (tagged with the core whose recorded flag was changed just before the call), scheduling
  the next tick (with the delay in microseconds), and the platform's hotplug operations.
\<close>

datatype call =
    Schedule_offline_work nat
  | Schedule_online_work nat
  | Schedule_hotplug_work int
  | Cpu_up nat
  | Cpu_down nat

datatype error = EINVAL | ENOMEM | Division_by_zero

definition possible_cpus :: "nat list" where
  "possible_cpus = [0..<NR_CPUS]"

definition num_online_cpus :: "platform \<Rightarrow> int" where
  "num_online_cpus p = int (length (filter (cpu_online p) possible_cpus))"

definition online_of :: "platform \<Rightarrow> nat \<Rightarrow> int" where
  "online_of p cpu = (if cpu_online p cpu then 1 else 0)"

section \<open>Run-queue sampler\<close>

definition init_rq_avg :: "runqueue_data" where
  "init_rq_avg = \<lparr>nr_run_avg = 0, update_rate = RQ_AVG_TIMER_RATE, last_time = 0,
     total_time = 0, work = False, nr_run_wq = False\<rparr>"

definition start_rq_work :: "runqueue_data \<Rightarrow> runqueue_data" where
  "start_rq_work r = r\<lparr>nr_run_avg := 0, last_time := 0, total_time := 0,
     nr_run_wq := True, work := True\<rparr>"

definition stop_rq_work :: "runqueue_data \<Rightarrow> runqueue_data" where
  "stop_rq_work r = (if nr_run_wq r then r\<lparr>work := False\<rparr> else r)"

text \<open>
  \<^verbatim>\<open>do_div(n, base)\<close> divides the 64-bit unsigned \<open>n\<close> by the 32-bit unsigned
  \<open>base\<close>. A zero base, which the kernel reports as a division by zero, is kept apart
  as an error value.
\<close>

definition do_div :: "int \<Rightarrow> int \<Rightarrow> error + int" where
  "do_div n base = (if u32 base = 0 then Inl Division_by_zero else Inr (u64 n div u32 base))"

text \<open>
  \<open>rq_work_fn cur_time nr_running r\<close>: one sample, taken at \<open>cur_time\<close> nanoseconds
  (\<^verbatim>\<open>ktime_to_ns(ktime_get())\<close>) with \<open>nr_running\<close> runnable tasks.
\<close>

definition rq_work_fn :: "int \<Rightarrow> int \<Rightarrow> runqueue_data \<Rightarrow> error + runqueue_data" where
  "rq_work_fn cur_time nr_running r =
    (let r1 = (if last_time r = 0 then r\<lparr>last_time := cur_time\<rparr> else r);
         r2 = (if nr_run_avg r1 = 0 then r1\<lparr>total_time := 0\<rparr> else r1);
         nr_run = u32 (u32 nr_running * 100)
     in case do_div (s64 (cur_time - last_time r2)) (1000 * 1000) of
          Inl e \<Rightarrow> Inl e
        | Inr q \<Rightarrow>
           (let time_diff = s64 q in
            case (if time_diff \<noteq> 0 \<and> total_time r2 \<noteq> 0
                  then do_div (s64 (s64 (nr_run * time_diff) + s64 (nr_run_avg r2 * total_time r2)))
                         (total_time r2 + time_diff)
                  else Inr nr_run) of
              Inl e \<Rightarrow> Inl e
            | Inr nr_run' \<Rightarrow>
                Inr (r2\<lparr>nr_run_avg := u32 nr_run',
                        total_time := s64 (total_time r2 + time_diff),
                        last_time := cur_time,
                        work := (if update_rate r2 = 0 then work r2 else True)\<rparr>)))"

definition get_nr_run_avg :: "runqueue_data \<Rightarrow> int \<times> runqueue_data" where
  "get_nr_run_avg r = (nr_run_avg r, r\<lparr>nr_run_avg := 0\<rparr>)"

section \<open>Decision engine\<close>

text \<open>
  The locals of \<^verbatim>\<open>hotplug_work_fn\<close> that live across the per-core loop extend the global
  state; \<open>enable\<close> and \<open>accurate\<close> are the locals \<^verbatim>\<open>hotplug_enable\<close> and
  \<^verbatim>\<open>accuratecpufreq\<close>, \<open>up_by_cpu_l\<close> is the local \<^verbatim>\<open>up_by_cpu\<close>, and \<open>calls\<close>
  collects the calls made so far.
\<close>

record tick_state = hp_state +
  enable :: bool
  upmaxcoreslimit :: int
  downmaxcoreslimit :: int
  up_rate :: int
  down_rate :: int
  accurate :: bool
  check_up :: bool
  check_down :: bool
  schedule_down_cpu :: int
  schedule_up_cpu :: int
  rq_avg :: int
  up_by_cpu_l :: int
  up_cpu_req :: int
  calls :: "call list"

text \<open>\<open>per_cpu_upd cpu f s\<close> changes the record of \<open>cpu\<close> by \<open>f\<close>.\<close>

definition per_cpu_upd ::
  "nat \<Rightarrow> (hotplug_cpuinfo \<Rightarrow> hotplug_cpuinfo) \<Rightarrow> 'a hp_state_scheme \<Rightarrow> 'a hp_state_scheme" where
  "per_cpu_upd cpu f s = s\<lparr>od_hotplug_cpuinfo := (od_hotplug_cpuinfo s)(cpu := f (od_hotplug_cpuinfo s cpu))\<rparr>"

text \<open>The declarations and initialisers at the head of \<^verbatim>\<open>hotplug_work_fn\<close>.\<close>

definition tick_locals :: "hp_state \<Rightarrow> tick_state" where
  "tick_locals s =
    (let t = hotplug_tuners_ins s in
     hp_state.extend s
       \<lparr>enable = (hotplug_enable t > 0),
        upmaxcoreslimit = maxcoreslimit t,
        downmaxcoreslimit = (if maxcoreslimit t = int NR_CPUS then 0 else s32 (maxcoreslimit t - 1)),
        up_rate = cpu_up_rate t,
        down_rate = cpu_down_rate t,
        accurate = (accuratecpufreq t > 0),
        check_up = False,
        check_down = False,
        schedule_down_cpu = 1,
        schedule_up_cpu = 1,
        rq_avg = 0,
        up_by_cpu_l = - 1,
        up_cpu_req = - 1,
        calls = []\<rparr>)"

text \<open>
  The start of an enabled tick: the counter is incremented, the two rate checks are
  taken, \<^verbatim>\<open>other_hotplugging\<close> is cleared and the sampler is read and reset. The
  remainders are unsigned. The setters below keep both rates between 1 and
  \<^verbatim>\<open>MAX_HOTPLUG_RATE\<close>, so a zero divisor does not arise.
\<close>

definition tick_begin :: "tick_state \<Rightarrow> tick_state" where
  "tick_begin l =
    (let rate = u32 (hotplugging_rate l + 1);
         (avg, r) = get_nr_run_avg (rq_data l)
     in l\<lparr>hotplugging_rate := rate,
          check_up := (rate mod u32 (up_rate l) = 0),
          check_down := (rate mod u32 (down_rate l) = 0),
          other_hotplugging := False,
          rq_avg := avg,
          rq_data := r\<rparr>)"

text \<open>The interval times of a core against its stored previous sample.\<close>

definition cur_idle_time :: "platform \<Rightarrow> nat \<Rightarrow> int" where
  "cur_idle_time p cpu = u64 (get_cpu_idle_time_us p cpu + get_cpu_iowait_time_us p cpu)"

definition wall_time :: "platform \<Rightarrow> nat \<Rightarrow> 'a hp_state_scheme \<Rightarrow> int" where
  "wall_time p cpu s = u32 (u64 (cpu_wall_time_us p cpu - prev_cpu_wall (od_hotplug_cpuinfo s cpu)))"

definition idle_time :: "platform \<Rightarrow> nat \<Rightarrow> 'a hp_state_scheme \<Rightarrow> int" where
  "idle_time p cpu s = u32 (u64 (cur_idle_time p cpu - prev_cpu_idle (od_hotplug_cpuinfo s cpu)))"

definition store_prev_times :: "platform \<Rightarrow> nat \<Rightarrow> tick_state \<Rightarrow> tick_state" where
  "store_prev_times p cpu l =
     per_cpu_upd cpu (\<lambda>c. c\<lparr>prev_cpu_wall := cpu_wall_time_us p cpu,
                            prev_cpu_idle := cur_idle_time p cpu\<rparr>) l"

text \<open>
  The comparison of the recorded flag with the hardware status: a disagreement sets
  \<^verbatim>\<open>other_hotplugging\<close>; an offline core whose record agrees is re-armed, and so is the
  core that brought it up. A stored \<^verbatim>\<open>up_by_cpu\<close> is -1 or a core index: the file assigns
  it nothing else.
\<close>

definition check_other_hotplugging :: "int \<Rightarrow> nat \<Rightarrow> tick_state \<Rightarrow> tick_state" where
  "check_other_hotplugging onl cpu l =
    (if online (od_hotplug_cpuinfo l cpu) \<noteq> onl then l\<lparr>other_hotplugging := True\<rparr>
     else if onl = 0 then
       (let l1 = per_cpu_upd cpu (\<lambda>c. c\<lparr>up_cpu := 1\<rparr>) l;
            l2 = l1\<lparr>up_by_cpu_l := up_by_cpu (od_hotplug_cpuinfo l1 cpu)\<rparr>
        in if up_by_cpu_l l2 \<ge> 0
           then per_cpu_upd cpu (\<lambda>c. c\<lparr>up_by_cpu := - 1\<rparr>)
                  (per_cpu_upd (nat (up_by_cpu_l l2)) (\<lambda>c. c\<lparr>up_cpu := 1\<rparr>) l2)
           else l2)
     else l)"

definition cur_load :: "int \<Rightarrow> int \<Rightarrow> int \<Rightarrow> int" where
  "cur_load wall idle onl =
    (if wall \<ge> idle \<and> onl \<noteq> 0
     then (if wall > idle then s32 (u32 (100 * u32 (wall - idle)) div wall) else 0)
     else - 1)"

definition cur_freq :: "platform \<Rightarrow> bool \<Rightarrow> int \<Rightarrow> int \<Rightarrow> int \<Rightarrow> nat \<Rightarrow> int" where
  "cur_freq p acc wall idle onl cpu =
    (if wall \<ge> idle \<and> onl \<noteq> 0
     then (if acc then u32 (acpuclk_get_rate p cpu) else u32 (cpufreq_quick_get p cpu))
     else 0)"

text \<open>The up evaluation of one core, with the thresholds of row \<open>cpu\<close>.\<close>

definition check_cpu_up :: "int \<Rightarrow> int \<Rightarrow> int \<Rightarrow> nat \<Rightarrow> tick_state \<Rightarrow> tick_state" where
  "check_cpu_up load freq onl cpu l =
    (let up_load = hotplug_load l cpu UP_INDEX;
         up_freq = u32 (hotplug_freq l cpu UP_INDEX);
         up_rq = u32 (hotplug_rq l cpu UP_INDEX)
     in if check_up l
           \<and> int cpu < u32 (upmaxcoreslimit l - 1)
           \<and> up_cpu (od_hotplug_cpuinfo l cpu) > 0
           \<and> schedule_up_cpu l > 0
           \<and> onl \<noteq> 0
        then (if load \<ge> up_load \<and> freq \<ge> up_freq \<and> rq_avg l > up_rq
              then (per_cpu_upd cpu (\<lambda>c. c\<lparr>up_cpu := 0\<rparr>) l)
                     \<lparr>schedule_up_cpu := schedule_up_cpu l - 1, up_cpu_req := int cpu\<rparr>
              else l)
        else l)"

text \<open>The down evaluation of one core, with the thresholds of row \<open>cpu\<close>.\<close>

definition check_cpu_down :: "int \<Rightarrow> int \<Rightarrow> int \<Rightarrow> nat \<Rightarrow> tick_state \<Rightarrow> tick_state" where
  "check_cpu_down load freq onl cpu l =
    (let down_load = hotplug_load l cpu DOWN_INDEX;
         down_freq = u32 (hotplug_freq l cpu DOWN_INDEX);
         down_rq = u32 (hotplug_rq l cpu DOWN_INDEX)
     in if check_down l
           \<and> int cpu > u32 (downmaxcoreslimit l)
           \<and> onl \<noteq> 0
           \<and> schedule_down_cpu l > 0
           \<and> load \<ge> 0
        then (if (onl \<ge> 2 \<and> load < down_load) \<or> (freq \<le> down_freq \<and> rq_avg l \<le> down_rq)
              then (per_cpu_upd cpu (\<lambda>c. c\<lparr>online := 0\<rparr>) l)
                     \<lparr>schedule_down_cpu := schedule_down_cpu l - 1,
                      alucard_hotplug_offline_work := True,
                      calls := calls l @ [Schedule_offline_work cpu]\<rparr>
              else l)
        else l)"

text \<open>The last statement of the loop body: an offline core takes a recorded up request.\<close>

definition bring_cpu_up :: "int \<Rightarrow> nat \<Rightarrow> tick_state \<Rightarrow> tick_state" where
  "bring_cpu_up onl cpu l =
    (if schedule_up_cpu l = 0 \<and> onl = 0
     then (per_cpu_upd cpu (\<lambda>c. c\<lparr>online := 1, up_by_cpu := up_cpu_req l\<rparr>) l)
            \<lparr>schedule_up_cpu := schedule_up_cpu l - 1,
             alucard_hotplug_online_work := True,
             calls := calls l @ [Schedule_online_work cpu]\<rparr>
     else l)"

text \<open>The part of the loop body guarded by \<^verbatim>\<open>other_hotplugging == false\<close>.\<close>

definition evaluate_cpu :: "platform \<Rightarrow> int \<Rightarrow> int \<Rightarrow> int \<Rightarrow> nat \<Rightarrow> tick_state \<Rightarrow> tick_state" where
  "evaluate_cpu p wall idle onl cpu l =
    (let load = cur_load wall idle onl;
         freq = cur_freq p (accurate l) wall idle onl cpu
     in bring_cpu_up onl cpu (check_cpu_down load freq onl cpu (check_cpu_up load freq onl cpu l)))"

text \<open>The body of \<^verbatim>\<open>for_each_possible_cpu\<close> in \<^verbatim>\<open>hotplug_work_fn\<close>.\<close>

definition hotplug_cpu :: "platform \<Rightarrow> nat \<Rightarrow> tick_state \<Rightarrow> tick_state" where
  "hotplug_cpu p cpu l =
    (let wall = wall_time p cpu l;
         idle = idle_time p cpu l;
         onl = online_of p cpu;
         l1 = check_other_hotplugging onl cpu (store_prev_times p cpu l)
     in if other_hotplugging l1 then l1 else evaluate_cpu p wall idle onl cpu l1)"

definition hotplug_loop :: "platform \<Rightarrow> hp_state \<Rightarrow> tick_state" where
  "hotplug_loop p s = fold (hotplug_cpu p) possible_cpus (tick_begin (tick_locals s))"

text \<open>The second loop: every record is set from the hardware when a disagreement was seen.\<close>

definition resync_cpu :: "platform \<Rightarrow> nat \<Rightarrow> tick_state \<Rightarrow> tick_state" where
  "resync_cpu p cpu l =
     per_cpu_upd cpu (\<lambda>c. c\<lparr>online := online_of p cpu, up_cpu := 1, up_by_cpu := - 1\<rparr>) l"

definition resync :: "platform \<Rightarrow> tick_state \<Rightarrow> tick_state" where
  "resync p l =
    (if other_hotplugging l
     then (fold (resync_cpu p) possible_cpus l)\<lparr>other_hotplugging := False\<rparr>
     else l)"

definition tick_end :: "platform \<Rightarrow> tick_state \<Rightarrow> tick_state" where
  "tick_end p l =
    (let l1 = (if hotplugging_rate l \<ge> u32 (max (up_rate l) (down_rate l))
               then l\<lparr>hotplugging_rate := 0\<rparr> else l);
         l2 = (if num_online_cpus p = 1 then per_cpu_upd 0 (\<lambda>c. c\<lparr>up_cpu := 1\<rparr>) l1 else l1)
     in l2\<lparr>alucard_hotplug_work := True,
           calls := calls l2 @ [Schedule_hotplug_work (hotplug_sampling_rate (hotplug_tuners_ins l2))]\<rparr>)"

text \<open>
  \<open>hotplug_work_fn p s\<close>: one run of the tick handler in state \<open>s\<close> against the
  platform snapshot \<open>p\<close>; the result is the new state and the calls made, in order.
\<close>

definition hotplug_work_fn :: "platform \<Rightarrow> hp_state \<Rightarrow> hp_state \<times> call list" where
  "hotplug_work_fn p s =
    (if enable (tick_locals s)
     then (let l = tick_end p (resync p (hotplug_loop p s))
           in (hp_state.truncate l, calls l))
     else (s, []))"

section \<open>Transition executors\<close>

definition cpu_online_work_fn :: "platform \<Rightarrow> hp_state \<Rightarrow> call list" where
  "cpu_online_work_fn p s =
     map Cpu_up (filter (\<lambda>cpu. (if cpu_online p cpu then False
                                else online (od_hotplug_cpuinfo s cpu) = 1)) possible_cpus)"

text \<open>
  The scan of \<open>cpu_offline_work_fn\<close> reads the snapshot \<open>p\<close>; \<open>p'\<close> is what the
  platform answers after the \<^verbatim>\<open>cpu_down\<close> calls.
\<close>

definition cpu_offline_work_fn :: "platform \<Rightarrow> platform \<Rightarrow> hp_state \<Rightarrow> hp_state \<times> call list" where
  "cpu_offline_work_fn p p' s =
     ((if num_online_cpus p' = 1 then per_cpu_upd 0 (\<lambda>c. c\<lparr>up_cpu := 1\<rparr>) s else s),
      map Cpu_down (filter (\<lambda>cpu. cpu_online p cpu \<and> online (od_hotplug_cpuinfo s cpu) = 0)
                      possible_cpus))"

section \<open>Enabling and disabling\<close>

definition seed_cpu :: "platform \<Rightarrow> nat \<Rightarrow> hp_state \<Rightarrow> hp_state" where
  "seed_cpu p cpu s =
     per_cpu_upd cpu (\<lambda>c. c\<lparr>prev_cpu_idle := cur_idle_time p cpu,
                            prev_cpu_wall := cpu_wall_time_us p cpu,
                            up_cpu := 1,
                            online := online_of p cpu,
                            up_by_cpu := - 1\<rparr>) s"

definition cpus_hotplugging :: "bool \<Rightarrow> platform \<Rightarrow> hp_state \<Rightarrow> hp_state \<times> call list" where
  "cpus_hotplugging state p s =
    (if state
     then (let s1 = s\<lparr>rq_data := start_rq_work (rq_data s)\<rparr>;
               s2 = fold (seed_cpu p) possible_cpus s1
           in (s2\<lparr>hotplugging_rate := 0, alucard_hotplug_work := True\<rparr>,
               [Schedule_hotplug_work (hotplug_sampling_rate (hotplug_tuners_ins s2))]))
     else (s\<lparr>rq_data := stop_rq_work (rq_data s)\<rparr>,
           map Cpu_down (filter (\<lambda>cpu. cpu_online p cpu \<and> cpu \<noteq> 0) possible_cpus)))"

text \<open>
  \<open>store_hotplug_enable input p s\<close>: \<open>input\<close> is what \<^verbatim>\<open>sscanf\<close> parsed, \<open>None\<close>
  when it parsed nothing.
\<close>

definition store_hotplug_enable ::
  "int option \<Rightarrow> platform \<Rightarrow> hp_state \<Rightarrow> error + (hp_state \<times> call list)" where
  "store_hotplug_enable input p s =
    (case input of
       None \<Rightarrow> Inl EINVAL
     | Some i \<Rightarrow>
        (let inp = (if i > 0 then 1 else 0) in
         if hotplug_enable (hotplug_tuners_ins s) = inp then Inr (s, [])
         else (let (s1, cs) = cpus_hotplugging (inp > 0) p s
               in Inr (s1\<lparr>hotplug_tuners_ins := (hotplug_tuners_ins s1)\<lparr>hotplug_enable := inp\<rparr>\<rparr>, cs))))"

section \<open>Setters\<close>

definition store_cpu_up_rate :: "int option \<Rightarrow> hp_state \<Rightarrow> error + hp_state" where
  "store_cpu_up_rate input s =
    (case input of
       None \<Rightarrow> Inl EINVAL
     | Some i \<Rightarrow>
        (let inp = max (min i MAX_HOTPLUG_RATE) 1 in
         if inp = cpu_up_rate (hotplug_tuners_ins s) then Inr s
         else Inr (s\<lparr>hotplug_tuners_ins := (hotplug_tuners_ins s)\<lparr>cpu_up_rate := inp\<rparr>\<rparr>)))"

definition store_cpu_down_rate :: "int option \<Rightarrow> hp_state \<Rightarrow> error + hp_state" where
  "store_cpu_down_rate input s =
    (case input of
       None \<Rightarrow> Inl EINVAL
     | Some i \<Rightarrow>
        (let inp = max (min i MAX_HOTPLUG_RATE) 1 in
         if inp = cpu_down_rate (hotplug_tuners_ins s) then Inr s
         else Inr (s\<lparr>hotplug_tuners_ins := (hotplug_tuners_ins s)\<lparr>cpu_down_rate := inp\<rparr>\<rparr>)))"

definition store_maxcoreslimit :: "int option \<Rightarrow> hp_state \<Rightarrow> error + hp_state" where
  "store_maxcoreslimit input s =
    (case input of
       None \<Rightarrow> Inl EINVAL
     | Some i \<Rightarrow>
        (let inp = max (if i > int NR_CPUS then int NR_CPUS else i) 1 in
         if maxcoreslimit (hotplug_tuners_ins s) = inp then Inr s
         else Inr (s\<lparr>hotplug_tuners_ins := (hotplug_tuners_ins s)\<lparr>maxcoreslimit := inp\<rparr>\<rparr>)))"

text \<open>
  \<^verbatim>\<open>store_hotplug_param(file_name, num_core, up_down)\<close>: the setter of one entry of one
  of the three tables. The parsed value is read into an \<^verbatim>\<open>unsigned int\<close>.
\<close>

datatype table = Freq_table | Load_table | Rq_table

definition store_hotplug_param ::
  "table \<Rightarrow> nat \<Rightarrow> nat \<Rightarrow> int option \<Rightarrow> hp_state \<Rightarrow> error + hp_state" where
  "store_hotplug_param tb num_core up_down input s =
    (case input of
       None \<Rightarrow> Inl EINVAL
     | Some i \<Rightarrow>
        (let inp = u32 i; row = num_core - 1 in
         case tb of
           Freq_table \<Rightarrow>
             if inp = u32 (hotplug_freq s row up_down) then Inr s
             else Inr (s\<lparr>hotplug_freq := (hotplug_freq s)(row := (hotplug_freq s row)(up_down := s32 inp))\<rparr>)
         | Load_table \<Rightarrow>
             if inp = u32 (hotplug_load s row up_down) then Inr s
             else Inr (s\<lparr>hotplug_load := (hotplug_load s)(row := (hotplug_load s row)(up_down := s32 inp))\<rparr>)
         | Rq_table \<Rightarrow>
             if inp = u32 (hotplug_rq s row up_down) then Inr s
             else Inr (s\<lparr>hotplug_rq := (hotplug_rq s)(row := (hotplug_rq s row)(up_down := s32 inp))\<rparr>)))"

text \<open>
  \<open>sooner\<close> is what \<^verbatim>\<open>time_before(next_sampling, appointed_at)\<close> answers: whether the
  tick at the new rate would fire before the pending one. The pending tick is then
  cancelled and scheduled again.
\<close>

definition update_sampling_rate :: "int \<Rightarrow> bool \<Rightarrow> hp_state \<Rightarrow> hp_state \<times> call list" where
  "update_sampling_rate new_rate sooner s =
    (let s1 = s\<lparr>hotplug_tuners_ins := (hotplug_tuners_ins s)\<lparr>hotplug_sampling_rate := new_rate\<rparr>\<rparr>
     in if alucard_hotplug_work s1 \<and> sooner then (s1, [Schedule_hotplug_work new_rate])
        else (s1, []))"

definition store_hotplug_sampling_rate ::
  "int option \<Rightarrow> bool \<Rightarrow> hp_state \<Rightarrow> error + (hp_state \<times> call list)" where
  "store_hotplug_sampling_rate input sooner s =
    (case input of
       None \<Rightarrow> Inl EINVAL
     | Some i \<Rightarrow>
        (let inp = max i 10000 in
         if inp = hotplug_sampling_rate (hotplug_tuners_ins s) then Inr (s, [])
         else Inr (update_sampling_rate inp sooner s)))"

definition store_accuratecpufreq :: "int option \<Rightarrow> hp_state \<Rightarrow> error + hp_state" where
  "store_accuratecpufreq input s =
    (case input of
       None \<Rightarrow> Inl EINVAL
     | Some i \<Rightarrow>
        (let inp = (if i > 0 then 1 else 0) in
         if accuratecpufreq (hotplug_tuners_ins s) = inp then Inr s
         else Inr (s\<lparr>hotplug_tuners_ins := (hotplug_tuners_ins s)\<lparr>accuratecpufreq := inp\<rparr>\<rparr>)))"

section \<open>Observations on a run\<close>

text \<open>Which calls select a core for the take-offline and for the bring-online executor.\<close>

fun selects_offline :: "call \<Rightarrow> bool" where
  "selects_offline (Schedule_offline_work cpu) = True"
| "selects_offline c = False"

fun selects_online :: "call \<Rightarrow> bool" where
  "selects_online (Schedule_online_work cpu) = True"
| "selects_online c = False"

text \<open>The rate checks \<open>(check_up, check_down)\<close> that a tick started in \<open>s\<close> takes.\<close>

definition tick_checks :: "hp_state \<Rightarrow> bool \<times> bool" where
  "tick_checks s = (let l = tick_begin (tick_locals s) in (check_up l, check_down l))"


text \<open>
  A sampler driven by hand: each pair is a sample (time in nanoseconds, runnable tasks)
  followed by a read; after the last pair comes one more read. The result lists what the
  reads returned.
\<close>

fun sample_and_read :: "(int \<times> int) list \<Rightarrow> runqueue_data \<Rightarrow> error + int list" where
  "sample_and_read [] r = Inr [fst (get_nr_run_avg r)]"
| "sample_and_read ((cur_time, nr_running) # xs) r =
    (case rq_work_fn cur_time nr_running r of
       Inl e \<Rightarrow> Inl e
     | Inr r1 \<Rightarrow>
        (case sample_and_read xs (snd (get_nr_run_avg r1)) of
           Inl e \<Rightarrow> Inl e
         | Inr avgs \<Rightarrow> Inr (fst (get_nr_run_avg r1) # avgs)))"

text \<open>The same samples without the reads in between, and one read at the end.\<close>

fun sample_all :: "(int \<times> int) list \<Rightarrow> runqueue_data \<Rightarrow> error + int" where
  "sample_all [] r = Inr (fst (get_nr_run_avg r))"
| "sample_all ((cur_time, nr_running) # xs) r =
    (case rq_work_fn cur_time nr_running r of
       Inl e \<Rightarrow> Inl e
     | Inr r1 \<Rightarrow> sample_all xs r1)"


section \<open>Observations on one iteration of the loop\<close>

text \<open>
  \<open>l\<close> is the state of a tick when its loop reaches core \<open>cpu\<close>. \<open>load_of\<close> and
  \<open>freq_of\<close> are the load and the frequency the iteration computes; \<open>evaluated\<close>
  says that the iteration reaches the up and down evaluation (no disagreement seen so far
  or at this core); \<open>up_triggered\<close> and \<open>handed_offline\<close> are the two outcomes of
  the iteration; the gates are the conditions of the two evaluations other than the rate
  check and the thresholds.
\<close>

definition load_of :: "platform \<Rightarrow> nat \<Rightarrow> tick_state \<Rightarrow> int" where
  "load_of p cpu l = cur_load (wall_time p cpu l) (idle_time p cpu l) (online_of p cpu)"

definition freq_of :: "platform \<Rightarrow> nat \<Rightarrow> tick_state \<Rightarrow> int" where
  "freq_of p cpu l =
     cur_freq p (accurate l) (wall_time p cpu l) (idle_time p cpu l) (online_of p cpu) cpu"

definition evaluated :: "platform \<Rightarrow> nat \<Rightarrow> tick_state \<Rightarrow> bool" where
  "evaluated p cpu l =
     (\<not> other_hotplugging l \<and> online (od_hotplug_cpuinfo l cpu) = online_of p cpu)"



definition up_gates :: "platform \<Rightarrow> nat \<Rightarrow> tick_state \<Rightarrow> bool" where
  "up_gates p cpu l =
     (evaluated p cpu l
      \<and> int cpu < u32 (upmaxcoreslimit l - 1)
      \<and> 0 < up_cpu (od_hotplug_cpuinfo l cpu)
      \<and> 0 < schedule_up_cpu l
      \<and> cpu_online p cpu)"

definition down_gates :: "platform \<Rightarrow> nat \<Rightarrow> tick_state \<Rightarrow> bool" where
  "down_gates p cpu l =
     (evaluated p cpu l
      \<and> u32 (downmaxcoreslimit l) < int cpu
      \<and> cpu_online p cpu
      \<and> 0 < schedule_down_cpu l
      \<and> 0 \<le> load_of p cpu l)"

definition up_thresholds_met :: "platform \<Rightarrow> nat \<Rightarrow> tick_state \<Rightarrow> bool" where
  "up_thresholds_met p cpu l =
     (hotplug_load l cpu UP_INDEX \<le> load_of p cpu l
      \<and> u32 (hotplug_freq l cpu UP_INDEX) \<le> freq_of p cpu l
      \<and> u32 (hotplug_rq l cpu UP_INDEX) < rq_avg l)"

definition down_thresholds_met :: "platform \<Rightarrow> nat \<Rightarrow> tick_state \<Rightarrow> bool" where
  "down_thresholds_met p cpu l =
     (freq_of p cpu l \<le> u32 (hotplug_freq l cpu DOWN_INDEX)
      \<and> rq_avg l \<le> u32 (hotplug_rq l cpu DOWN_INDEX))"



section \<open>Runs of the controller\<close>

text \<open>
  The entry points of the file as events: the setters with what was parsed, and the four
  work handlers with what the platform answers. The workqueue runs a handler only when
  its work is pending and clears the pending bit before the handler starts. A setter that
  returns \<^verbatim>\<open>-EINVAL\<close> leaves the state as it was; a sample that divides by zero is left
  out of the run. \<open>run\<close> gives the last state and all the calls made, in order.
\<close>

datatype event =
    Store_hotplug_enable "int option" platform
  | Store_hotplug_sampling_rate "int option" bool
  | Store_cpu_up_rate "int option"
  | Store_cpu_down_rate "int option"
  | Store_maxcoreslimit "int option"
  | Store_accuratecpufreq "int option"
  | Store_hotplug_param table nat nat "int option"
  | Hotplug_work platform
  | Online_work platform
  | Offline_work platform platform
  | Rq_work int int

definition stored :: "error + hp_state \<Rightarrow> hp_state \<Rightarrow> hp_state \<times> call list" where
  "stored r s = (case r of Inl e \<Rightarrow> (s, []) | Inr s' \<Rightarrow> (s', []))"

definition stored_calls :: "error + (hp_state \<times> call list) \<Rightarrow> hp_state \<Rightarrow> hp_state \<times> call list" where
  "stored_calls r s = (case r of Inl e \<Rightarrow> (s, []) | Inr x \<Rightarrow> x)"

fun step :: "event \<Rightarrow> hp_state \<Rightarrow> hp_state \<times> call list" where
  "step (Store_hotplug_enable input p) s = stored_calls (store_hotplug_enable input p s) s"
| "step (Store_hotplug_sampling_rate input sooner) s =
     stored_calls (store_hotplug_sampling_rate input sooner s) s"
| "step (Store_cpu_up_rate input) s = stored (store_cpu_up_rate input s) s"
| "step (Store_cpu_down_rate input) s = stored (store_cpu_down_rate input s) s"
| "step (Store_maxcoreslimit input) s = stored (store_maxcoreslimit input s) s"
| "step (Store_accuratecpufreq input) s = stored (store_accuratecpufreq input s) s"
| "step (Store_hotplug_param tb num_core up_down input) s =
     stored (store_hotplug_param tb num_core up_down input s) s"
| "step (Hotplug_work p) s =
     (if alucard_hotplug_work s then hotplug_work_fn p (s\<lparr>alucard_hotplug_work := False\<rparr>)
      else (s, []))"
| "step (Online_work p) s =
     (if alucard_hotplug_online_work s
      then (s\<lparr>alucard_hotplug_online_work := False\<rparr>, cpu_online_work_fn p s)
      else (s, []))"
| "step (Offline_work p p') s =
     (if alucard_hotplug_offline_work s
      then cpu_offline_work_fn p p' (s\<lparr>alucard_hotplug_offline_work := False\<rparr>)
      else (s, []))"
| "step (Rq_work cur_time nr_running) s =
     (if work (rq_data s)
      then stored (case rq_work_fn cur_time nr_running ((rq_data s)\<lparr>work := False\<rparr>) of
                     Inl e \<Rightarrow> Inl e | Inr r \<Rightarrow> Inr (s\<lparr>rq_data := r\<rparr>)) s
      else (s, []))"

fun run :: "event list \<Rightarrow> hp_state \<Rightarrow> hp_state \<times> call list" where
  "run [] s = (s, [])"
| "run (e # es) s = (fst (run es (fst (step e s))), snd (step e s) @ snd (run es (fst (step e s))))"

fun core0_online :: "event \<Rightarrow> bool" where
  "core0_online (Store_hotplug_enable input p) = cpu_online p 0"
| "core0_online (Hotplug_work p) = cpu_online p 0"
| "core0_online e = True"

definition core0_kept :: "hp_state \<times> call list \<Rightarrow> bool" where
  "core0_kept r =
    (online (od_hotplug_cpuinfo (fst r) 0) = 1
     \<and> Cpu_down 0 \<notin> set (snd r) \<and> Schedule_offline_work 0 \<notin> set (snd r))"

fun platform_call :: "call \<Rightarrow> bool" where
  "platform_call (Cpu_up cpu) = True"
| "platform_call (Cpu_down cpu) = True"
| "platform_call c = False"

section \<open>Concrete configurations\<close>

text \<open>The static initialisers of the file.\<close>

definition hotplug_freq_init :: "nat \<Rightarrow> nat \<Rightarrow> int" where
  "hotplug_freq_init n ud =
     [[0, 702000], [486000, 702000], [486000, 702000], [486000, 0]] ! n ! ud"

definition hotplug_load_init :: "nat \<Rightarrow> nat \<Rightarrow> int" where
  "hotplug_load_init n ud = [[0, 65], [30, 65], [30, 65], [30, 0]] ! n ! ud"

definition hotplug_rq_init :: "nat \<Rightarrow> nat \<Rightarrow> int" where
  "hotplug_rq_init n ud = [[0, 200], [200, 200], [200, 300], [300, 0]] ! n ! ud"

definition hotplug_tuners_init :: hotplug_tuners where
  "hotplug_tuners_init =
     \<lparr>hotplug_sampling_rate = 60000, hotplug_enable = 0, cpu_up_rate = 10,
      cpu_down_rate = 20, maxcoreslimit = int NR_CPUS, accuratecpufreq = 0\<rparr>"

definition static_state :: hp_state where
  "static_state =
     \<lparr>od_hotplug_cpuinfo =
        (\<lambda>cpu. \<lparr>prev_cpu_wall = 0, prev_cpu_idle = 0, online = 0, up_cpu = 0, up_by_cpu = 0\<rparr>),
      hotplug_tuners_ins = hotplug_tuners_init,
      hotplug_freq = hotplug_freq_init,
      hotplug_load = hotplug_load_init,
      hotplug_rq = hotplug_rq_init,
      rq_data = init_rq_avg,
      hotplugging_rate = 0,
      other_hotplugging = False,
      alucard_hotplug_work = False,
      alucard_hotplug_offline_work = False,
      alucard_hotplug_online_work = False\<rparr>"

text \<open>
  A four-core platform snapshot given by the online mask and the wall time, idle time and
  frequency of each core; iowait is zero and both frequency sources agree.
\<close>

definition board :: "bool list \<Rightarrow> int list \<Rightarrow> int list \<Rightarrow> int list \<Rightarrow> platform" where
  "board on walls idles freqs =
     \<lparr>cpu_online = (\<lambda>cpu. on ! cpu),
      get_cpu_idle_time_us = (\<lambda>cpu. idles ! cpu),
      get_cpu_iowait_time_us = (\<lambda>cpu. 0),
      cpu_wall_time_us = (\<lambda>cpu. walls ! cpu),
      acpuclk_get_rate = (\<lambda>cpu. freqs ! cpu),
      cpufreq_quick_get = (\<lambda>cpu. freqs ! cpu)\<rparr>"

text \<open>
  The controller enabled on a platform with online mask \<open>on\<close> and all time counters at
  zero, later found with tick counter \<open>rate\<close>, core cap \<open>maxc\<close> and sampler average
  \<open>avg\<close>, the tick handler just started by the workqueue.
\<close>

definition running :: "bool list \<Rightarrow> int \<Rightarrow> int \<Rightarrow> int \<Rightarrow> hp_state" where
  "running on rate maxc avg =
     (fst (cpus_hotplugging True (board on [0, 0, 0, 0] [0, 0, 0, 0] [0, 0, 0, 0]) static_state))
       \<lparr>hotplug_tuners_ins := hotplug_tuners_init\<lparr>hotplug_enable := 1, maxcoreslimit := maxc\<rparr>,
        hotplugging_rate := rate,
        rq_data := (start_rq_work init_rq_avg)\<lparr>nr_run_avg := avg\<rparr>,
        alucard_hotplug_work := False\<rparr>"

text \<open>Snapshots and states used as concrete inputs below.\<close>

definition busy_board :: platform where
  "busy_board = board [True, True, True, True] [1000, 1000, 1000, 1000] [500, 900, 500, 500]
     [1000000, 1000000, 1000000, 1000000]"

definition capped_board :: platform where
  "capped_board = board [True, True, True, False] [1000, 1000, 1000, 0] [500, 500, 500, 0]
     [1000000, 1000000, 300000, 0]"

definition drift_board :: platform where
  "drift_board = board [True, True, True, True] [1000, 1000, 1000, 1000] [500, 900, 500, 500]
     [1000000, 300000, 1000000, 1000000]"

definition uneven_board :: platform where
  "uneven_board = board [True, False, True, False] [1000, 0, 1000, 0] [900, 0, 100, 0]
     [1000000, 0, 1000000, 0]"







text \<open>A run with the cap at 2: a tick that hands core 2 over, then the take-offline executor.\<close>

definition capped_start :: hp_state where
  "capped_start = (running [True, True, True, False] 19 2 0)\<lparr>alucard_hotplug_work := True\<rparr>"

definition capped_run :: "event list" where
  "capped_run = [Hotplug_work capped_board, Offline_work capped_board capped_board]"

section \<open>Loop invariants\<close>

text \<open>
  The two counters \<^verbatim>\<open>schedule_down_cpu\<close> and \<^verbatim>\<open>schedule_up_cpu\<close> against the calls
  made so far.
\<close>

definition at_most_one :: "tick_state \<Rightarrow> bool" where
  "at_most_one l =
    ((schedule_down_cpu l = 1 \<and> filter selects_offline (calls l) = []
      \<or> schedule_down_cpu l = 0 \<and> length (filter selects_offline (calls l)) = 1)
   \<and> (schedule_up_cpu l = 1 \<and> filter selects_online (calls l) = []
      \<or> schedule_up_cpu l = 0 \<and> filter selects_online (calls l) = []
      \<or> schedule_up_cpu l = - 1 \<and> length (filter selects_online (calls l)) = 1))"

text \<open>Every core handed to the take-offline executor so far lies above the floor \<open>d\<close>.\<close>

definition above_floor :: "int \<Rightarrow> tick_state \<Rightarrow> bool" where
  "above_floor d l =
    (downmaxcoreslimit l = d
     \<and> (\<forall>c. Schedule_offline_work c \<in> set (calls l) \<longrightarrow> 0 < c \<and> c < NR_CPUS \<and> u32 d < int c))"

text \<open>Every core handed to an executor so far lies in \<open>A\<close>.\<close>

definition called_in :: "nat set \<Rightarrow> tick_state \<Rightarrow> bool" where
  "called_in A l =
    (\<forall>c. Schedule_offline_work c \<in> set (calls l) \<or> Schedule_online_work c \<in> set (calls l)
          \<longrightarrow> c \<in> A)"

text \<open>
  The progress of the up request through a loop that has seen no disagreement, after the
  cores below \<open>k\<close>: no trigger yet; a trigger \<open>t\<close> recorded and every core from
  \<open>t\<close> on online; or the request of trigger \<open>t\<close> taken by core \<open>c\<close>, the first
  offline core after \<open>t\<close>. \<open>up_trigger_now\<close> is the state between the up evaluation of
  core \<open>k\<close> and the end of its loop body.
\<close>

definition idle_up :: "tick_state \<Rightarrow> bool" where
  "idle_up l =
    (\<not> other_hotplugging l \<and> schedule_up_cpu l = 1 \<and> up_cpu_req l = - 1
     \<and> filter selects_online (calls l) = [])"

definition wait_up :: "platform \<Rightarrow> nat \<Rightarrow> nat \<Rightarrow> tick_state \<Rightarrow> bool" where
  "wait_up p k t l =
    (\<not> other_hotplugging l \<and> schedule_up_cpu l = 0 \<and> up_cpu_req l = int t
     \<and> filter selects_online (calls l) = []
     \<and> t < k \<and> (\<forall>j. t \<le> j \<and> j < k \<longrightarrow> cpu_online p j))"

definition done_up :: "platform \<Rightarrow> nat \<Rightarrow> nat \<Rightarrow> nat \<Rightarrow> tick_state \<Rightarrow> bool" where
  "done_up p k t c l =
    (\<not> other_hotplugging l \<and> schedule_up_cpu l = - 1 \<and> up_cpu_req l = int t
     \<and> filter selects_online (calls l) = [Schedule_online_work c]
     \<and> t < c \<and> c < k \<and> \<not> cpu_online p c \<and> (\<forall>j. t \<le> j \<and> j < c \<longrightarrow> cpu_online p j)
     \<and> online (od_hotplug_cpuinfo l c) = 1
     \<and> up_by_cpu (od_hotplug_cpuinfo l c) = int t
     \<and> alucard_hotplug_online_work l)"

definition up_trigger_now :: "platform \<Rightarrow> nat \<Rightarrow> tick_state \<Rightarrow> bool" where
  "up_trigger_now p k l =
    (\<not> other_hotplugging l \<and> schedule_up_cpu l = 0 \<and> up_cpu_req l = int k
     \<and> filter selects_online (calls l) = [] \<and> cpu_online p k)"

definition up_progress :: "platform \<Rightarrow> nat \<Rightarrow> tick_state \<Rightarrow> bool" where
  "up_progress p k l = (idle_up l \<or> (\<exists>t. wait_up p k t l) \<or> (\<exists>t c. done_up p k t c l))"


section \<open>Evaluation on concrete inputs\<close>

lemma possible_cpus_eq: "possible_cpus = [0, 1, 2, 3]"
  by (simp add: possible_cpus_def NR_CPUS_def upt_rec)

lemmas model_defs =
  hotplug_work_fn_def hotplug_loop_def tick_locals_def tick_begin_def tick_end_def resync_def
  resync_cpu_def hotplug_cpu_def evaluate_cpu_def bring_cpu_up_def check_cpu_down_def
  check_cpu_up_def cur_freq_def cur_load_def check_other_hotplugging_def store_prev_times_def
  wall_time_def idle_time_def cur_idle_time_def per_cpu_upd_def get_nr_run_avg_def
  online_of_def num_online_cpus_def possible_cpus_eq u32_def u64_def s32_def s64_def
  UP_INDEX_def DOWN_INDEX_def NR_CPUS_def hp_state.defs

lemmas loop_defs =
  model_defs load_of_def freq_of_def evaluated_def up_gates_def down_gates_def
  up_thresholds_met_def down_thresholds_met_def

lemmas example_defs =
  running_def board_def static_state_def hotplug_tuners_init_def hotplug_freq_init_def
  hotplug_load_init_def hotplug_rq_init_def cpus_hotplugging_def seed_cpu_def
  start_rq_work_def init_rq_avg_def RQ_AVG_TIMER_RATE_def

section \<open>The ranges the setters keep\<close>

lemma store_cpu_up_rate_range:
  "store_cpu_up_rate (Some i) s = Inr s' \<Longrightarrow>
     cpu_up_rate (hotplug_tuners_ins s') = max (min i MAX_HOTPLUG_RATE) 1
     \<and> 1 \<le> cpu_up_rate (hotplug_tuners_ins s')
     \<and> cpu_up_rate (hotplug_tuners_ins s') \<le> MAX_HOTPLUG_RATE"
  by (auto simp: store_cpu_up_rate_def Let_def MAX_HOTPLUG_RATE_def split: if_splits)

lemma store_cpu_down_rate_range:
  "store_cpu_down_rate (Some i) s = Inr s' \<Longrightarrow>
     cpu_down_rate (hotplug_tuners_ins s') = max (min i MAX_HOTPLUG_RATE) 1
     \<and> 1 \<le> cpu_down_rate (hotplug_tuners_ins s')
     \<and> cpu_down_rate (hotplug_tuners_ins s') \<le> MAX_HOTPLUG_RATE"
  by (auto simp: store_cpu_down_rate_def Let_def MAX_HOTPLUG_RATE_def split: if_splits)

lemma store_maxcoreslimit_range:
  "store_maxcoreslimit (Some i) s = Inr s' \<Longrightarrow>
     1 \<le> maxcoreslimit (hotplug_tuners_ins s')
     \<and> maxcoreslimit (hotplug_tuners_ins s') \<le> int NR_CPUS"
  by (auto simp: store_maxcoreslimit_def Let_def NR_CPUS_def split: if_splits)

section \<open>The tick handler while disabled\<close>

lemma tick_locals_enable: "enable (tick_locals s) = (hotplug_enable (hotplug_tuners_ins s) > 0)"
  by (simp add: tick_locals_def Let_def hp_state.defs)

text \<open>
  C10. A run of the tick handler while the enable flag is not set returns the state as it
  was (the per-core records, the tick counter and the sampler among it) and makes no
  call: the tick is not scheduled again, and its pending bit stays as it was.
\<close>

theorem C10_disabled_tick_is_noop:
  "hotplug_enable (hotplug_tuners_ins s) \<le> 0 \<Longrightarrow> hotplug_work_fn p s = (s, [])"
  by (simp add: hotplug_work_fn_def tick_locals_enable)

theorem C10_disabled_tick_is_noop_witness:
  "hotplug_enable (hotplug_tuners_ins static_state) \<le> 0
   \<and> hotplug_work_fn (board [True, True, False, False] [1000, 1000, 0, 0] [100, 900, 0, 0]
          [1000000, 300000, 0, 0]) static_state = (static_state, [])"
proof -
  have h: "hotplug_enable (hotplug_tuners_ins static_state) \<le> 0"
    by (simp add: static_state_def hotplug_tuners_init_def)
  from h C10_disabled_tick_is_noop [OF h] show ?thesis by simp
qed

section \<open>The calls of a tick\<close>

lemma fold_invariant:
  "I s \<Longrightarrow> (\<And>x s. x \<in> set xs \<Longrightarrow> I s \<Longrightarrow> I (f x s)) \<Longrightarrow> I (fold f xs s)"
  by (induction xs arbitrary: s) auto

lemma resync_cpu_calls: "calls (fold (resync_cpu p) xs l) = calls l"
  by (induction xs arbitrary: l) (simp_all add: resync_cpu_def per_cpu_upd_def)

lemma resync_calls: "calls (resync p l) = calls l"
  by (simp add: resync_def resync_cpu_calls)

lemma tick_end_calls:
  "calls (tick_end p l) =
     calls l @ [Schedule_hotplug_work (hotplug_sampling_rate (hotplug_tuners_ins l))]"
  by (simp add: tick_end_def Let_def per_cpu_upd_def)

lemma work_fn_calls:
  "hotplug_enable (hotplug_tuners_ins s) > 0 \<Longrightarrow>
   snd (hotplug_work_fn p s) = calls (hotplug_loop p s) @
     [Schedule_hotplug_work
        (hotplug_sampling_rate (hotplug_tuners_ins (resync p (hotplug_loop p s))))]"
  by (simp add: hotplug_work_fn_def tick_locals_enable Let_def tick_end_calls resync_calls)

section \<open>One core up and one core down per tick\<close>

lemma amo_store: "at_most_one (store_prev_times p cpu l) = at_most_one l"
  by (simp add: at_most_one_def store_prev_times_def per_cpu_upd_def)

lemma amo_other: "at_most_one (check_other_hotplugging onl cpu l) = at_most_one l"
  by (simp add: at_most_one_def check_other_hotplugging_def per_cpu_upd_def Let_def)

lemma amo_up: "at_most_one l \<Longrightarrow> at_most_one (check_cpu_up load freq onl cpu l)"
  by (auto simp: at_most_one_def check_cpu_up_def per_cpu_upd_def Let_def)

lemma amo_down: "at_most_one l \<Longrightarrow> at_most_one (check_cpu_down load freq onl cpu l)"
  by (auto simp: at_most_one_def check_cpu_down_def per_cpu_upd_def Let_def)

lemma amo_bring: "at_most_one l \<Longrightarrow> at_most_one (bring_cpu_up onl cpu l)"
  by (auto simp: at_most_one_def bring_cpu_up_def per_cpu_upd_def Let_def)

lemma at_most_one_step: "at_most_one l \<Longrightarrow> at_most_one (hotplug_cpu p cpu l)"
  by (simp add: hotplug_cpu_def evaluate_cpu_def Let_def amo_store amo_other amo_up amo_down
      amo_bring)

lemma at_most_one_begin: "at_most_one (tick_begin (tick_locals s))"
  by (simp add: at_most_one_def tick_begin_def tick_locals_def Let_def hp_state.defs
      split: prod.splits)

lemma at_most_one_loop: "at_most_one (hotplug_loop p s)"
  unfolding hotplug_loop_def
  by (rule fold_invariant [where I = at_most_one])
     (simp_all add: at_most_one_begin at_most_one_step)

text \<open>
  C6. Whatever the platform answers and whatever the state and the threshold tables hold,
  the calls of one tick hand at most one core to the bring-online executor and at most
  one core to the take-offline executor.
\<close>

theorem C6_at_most_one_up_and_one_down:
  "length (filter selects_online (snd (hotplug_work_fn p s))) \<le> 1
   \<and> length (filter selects_offline (snd (hotplug_work_fn p s))) \<le> 1"
proof (cases "hotplug_enable (hotplug_tuners_ins s) > 0")
  case True
  from at_most_one_loop [of p s] show ?thesis
    unfolding at_most_one_def work_fn_calls [OF True] by auto
next
  case False
  then show ?thesis by (simp add: hotplug_work_fn_def tick_locals_enable)
qed

theorem C6_at_most_one_up_and_one_down_witness:
  "length (filter selects_online (snd (hotplug_work_fn busy_board (running [True, True, True, True] 19 4 0)))) \<le> 1
   \<and> length (filter selects_offline (snd (hotplug_work_fn busy_board (running [True, True, True, True] 19 4 0)))) \<le> 1"
  by (rule C6_at_most_one_up_and_one_down)

section \<open>The down evaluation\<close>

text \<open>
  With the hardware status of the core as \<open>onl\<close>, which is 0 or 1, the test
  \<^verbatim>\<open>online >= 2\<close> fails, and the down evaluation hands the core over exactly when the
  gates hold and both the frequency and the run-queue average are at or below their down
  thresholds; the load threshold plays no part.
\<close>

lemma check_cpu_down_selects_iff:
  "calls (check_cpu_down load freq (online_of p cpu) cpu l) \<noteq> calls l
   \<longleftrightarrow> (check_down l \<and> u32 (downmaxcoreslimit l) < int cpu \<and> cpu_online p cpu
        \<and> schedule_down_cpu l > 0 \<and> load \<ge> 0
        \<and> freq \<le> u32 (hotplug_freq l cpu DOWN_INDEX) \<and> rq_avg l \<le> u32 (hotplug_rq l cpu DOWN_INDEX))"
  by (auto simp: check_cpu_down_def online_of_def per_cpu_upd_def Let_def)

text \<open>
  C3. Four cores online, the tick counter at 19 so that this tick takes the down check,
  core 1 at 10 percent load, below its down load threshold of 30, at 1000000 kHz, above
  its down frequency threshold of 486000: the claim's first disjunct holds for core 1,
  and the tick hands no core to the take-offline executor.
\<close>

theorem C3_low_load_core_not_selected:
  "num_online_cpus busy_board = 4
   \<and> snd (tick_checks (running [True, True, True, True] 19 4 0))
   \<and> cur_load (wall_time busy_board 1 (running [True, True, True, True] 19 4 0))
        (idle_time busy_board 1 (running [True, True, True, True] 19 4 0)) (online_of busy_board 1) = 10
   \<and> hotplug_load (running [True, True, True, True] 19 4 0) 1 DOWN_INDEX = 30
   \<and> snd (hotplug_work_fn busy_board (running [True, True, True, True] 19 4 0))
       = [Schedule_hotplug_work 60000]"
  by (simp add: model_defs example_defs busy_board_def tick_checks_def Let_def)

section \<open>The floor of the down evaluation\<close>

lemma af_store: "above_floor d (store_prev_times p cpu l) = above_floor d l"
  by (simp add: above_floor_def store_prev_times_def per_cpu_upd_def)

lemma af_other: "above_floor d (check_other_hotplugging onl cpu l) = above_floor d l"
  by (simp add: above_floor_def check_other_hotplugging_def per_cpu_upd_def Let_def)

lemma af_up: "above_floor d (check_cpu_up load freq onl cpu l) = above_floor d l"
  by (simp add: above_floor_def check_cpu_up_def per_cpu_upd_def Let_def)

lemma u32_nonneg: "0 \<le> u32 x"
  by (simp add: u32_def)

lemma af_down:
  "cpu < NR_CPUS \<Longrightarrow> above_floor d l \<Longrightarrow> above_floor d (check_cpu_down load freq onl cpu l)"
  using u32_nonneg [of d]
  by (auto simp: above_floor_def check_cpu_down_def per_cpu_upd_def Let_def)

lemma af_bring: "above_floor d (bring_cpu_up onl cpu l) = above_floor d l"
  by (simp add: above_floor_def bring_cpu_up_def per_cpu_upd_def Let_def)

lemma above_floor_step:
  "cpu < NR_CPUS \<Longrightarrow> above_floor d l \<Longrightarrow> above_floor d (hotplug_cpu p cpu l)"
  by (simp add: hotplug_cpu_def evaluate_cpu_def Let_def af_store af_other af_up af_down af_bring)

lemma above_floor_begin:
  "above_floor (downmaxcoreslimit (tick_locals s)) (tick_begin (tick_locals s))"
  by (simp add: above_floor_def tick_begin_def tick_locals_def Let_def hp_state.defs
      split: prod.splits)

lemma above_floor_loop: "above_floor (downmaxcoreslimit (tick_locals s)) (hotplug_loop p s)"
  unfolding hotplug_loop_def
  by (rule fold_invariant [where I = "above_floor (downmaxcoreslimit (tick_locals s))"])
     (simp_all add: above_floor_begin above_floor_step possible_cpus_def)

lemma downmaxcoreslimit_locals:
  "downmaxcoreslimit (tick_locals s) =
     (if maxcoreslimit (hotplug_tuners_ins s) = int NR_CPUS then 0
      else s32 (maxcoreslimit (hotplug_tuners_ins s) - 1))"
  by (simp add: tick_locals_def Let_def hp_state.defs)

lemma offline_calls_above_floor:
  assumes "Schedule_offline_work c \<in> set (snd (hotplug_work_fn p s))"
  shows "0 < c \<and> c < NR_CPUS \<and> u32 (downmaxcoreslimit (tick_locals s)) < int c"
proof (cases "hotplug_enable (hotplug_tuners_ins s) > 0")
  case True
  from assms have "Schedule_offline_work c \<in> set (calls (hotplug_loop p s))"
    by (simp add: work_fn_calls [OF True])
  with above_floor_loop [of s p] show ?thesis by (simp add: above_floor_def)
next
  case False
  with assms show ?thesis by (simp add: hotplug_work_fn_def tick_locals_enable)
qed

lemma floor_below_cap:
  "1 \<le> m \<Longrightarrow> m < int NR_CPUS \<Longrightarrow> u32 (if m = int NR_CPUS then 0 else s32 (m - 1)) = m - 1"
  by (simp add: u32_def s32_def NR_CPUS_def)

text \<open>
  C7, as stated, fails: with the cap \<^verbatim>\<open>maxcoreslimit\<close> at 2 on four cores, a tick that
  takes the down check hands core 2, whose index is at the cap, to the take-offline
  executor.
\<close>

theorem C7_core_at_cap_selected:
  "maxcoreslimit (hotplug_tuners_ins (running [True, True, True, False] 19 2 0)) = 2
   \<and> snd (hotplug_work_fn capped_board (running [True, True, True, False] 19 2 0))
       = [Schedule_offline_work 2, Schedule_hotplug_work 60000]"
  by (simp add: model_defs example_defs capped_board_def Let_def)

section \<open>Frame lemmas of the loop body\<close>

lemma other_stays_step:
  "other_hotplugging l \<Longrightarrow>
     other_hotplugging (hotplug_cpu p cpu l) \<and> calls (hotplug_cpu p cpu l) = calls l"
  by (simp add: hotplug_cpu_def check_other_hotplugging_def store_prev_times_def per_cpu_upd_def Let_def)

lemma other_stays_fold:
  "other_hotplugging l \<Longrightarrow>
     other_hotplugging (fold (hotplug_cpu p) xs l) \<and> calls (fold (hotplug_cpu p) xs l) = calls l"
  by (induction xs arbitrary: l) (simp_all add: other_stays_step)

lemma online_store: "online (od_hotplug_cpuinfo (store_prev_times p cpu l) j) = online (od_hotplug_cpuinfo l j)"
  by (simp add: store_prev_times_def per_cpu_upd_def)

lemma online_other: "online (od_hotplug_cpuinfo (check_other_hotplugging onl cpu l) j) = online (od_hotplug_cpuinfo l j)"
  by (simp add: check_other_hotplugging_def per_cpu_upd_def Let_def)

lemma online_up: "online (od_hotplug_cpuinfo (check_cpu_up load freq onl cpu l) j) = online (od_hotplug_cpuinfo l j)"
  by (simp add: check_cpu_up_def per_cpu_upd_def Let_def)

lemma online_down: "j \<noteq> cpu \<Longrightarrow> online (od_hotplug_cpuinfo (check_cpu_down load freq onl cpu l) j) = online (od_hotplug_cpuinfo l j)"
  by (simp add: check_cpu_down_def per_cpu_upd_def Let_def)

lemma online_bring: "j \<noteq> cpu \<Longrightarrow> online (od_hotplug_cpuinfo (bring_cpu_up onl cpu l) j) = online (od_hotplug_cpuinfo l j)"
  by (simp add: bring_cpu_up_def per_cpu_upd_def Let_def)

lemma online_step:
  "j \<noteq> cpu \<Longrightarrow> online (od_hotplug_cpuinfo (hotplug_cpu p cpu l) j) = online (od_hotplug_cpuinfo l j)"
  by (simp add: hotplug_cpu_def evaluate_cpu_def Let_def online_store online_other online_up online_down online_bring)

lemma online_fold:
  "j \<notin> set xs \<Longrightarrow> online (od_hotplug_cpuinfo (fold (hotplug_cpu p) xs l) j) = online (od_hotplug_cpuinfo l j)"
  by (induction xs arbitrary: l) (simp_all add: online_step)

lemma drift_step:
  "online (od_hotplug_cpuinfo l cpu) \<noteq> online_of p cpu \<Longrightarrow>
     other_hotplugging (hotplug_cpu p cpu l) \<and> calls (hotplug_cpu p cpu l) = calls l"
  by (simp add: hotplug_cpu_def check_other_hotplugging_def store_prev_times_def per_cpu_upd_def Let_def)

lemma ci_store: "called_in A (store_prev_times p cpu l) = called_in A l"
  by (simp add: called_in_def store_prev_times_def per_cpu_upd_def)

lemma ci_other: "called_in A (check_other_hotplugging onl cpu l) = called_in A l"
  by (simp add: called_in_def check_other_hotplugging_def per_cpu_upd_def Let_def)

lemma ci_up: "called_in A (check_cpu_up load freq onl cpu l) = called_in A l"
  by (simp add: called_in_def check_cpu_up_def per_cpu_upd_def Let_def)

lemma ci_down: "cpu \<in> A \<Longrightarrow> called_in A l \<Longrightarrow> called_in A (check_cpu_down load freq onl cpu l)"
  by (auto simp: called_in_def check_cpu_down_def per_cpu_upd_def Let_def)

lemma ci_bring: "cpu \<in> A \<Longrightarrow> called_in A l \<Longrightarrow> called_in A (bring_cpu_up onl cpu l)"
  by (auto simp: called_in_def bring_cpu_up_def per_cpu_upd_def Let_def)

lemma called_in_step: "cpu \<in> A \<Longrightarrow> called_in A l \<Longrightarrow> called_in A (hotplug_cpu p cpu l)"
  by (simp add: hotplug_cpu_def evaluate_cpu_def Let_def ci_store ci_other ci_up ci_down ci_bring)

lemma called_in_fold: "set xs \<subseteq> A \<Longrightarrow> called_in A l \<Longrightarrow> called_in A (fold (hotplug_cpu p) xs l)"
  by (induction xs arbitrary: l) (simp_all add: called_in_step)

lemma begin_cpuinfo: "od_hotplug_cpuinfo (tick_begin (tick_locals s)) = od_hotplug_cpuinfo s"
  by (simp add: tick_begin_def tick_locals_def Let_def hp_state.defs split: prod.splits)

lemma begin_calls: "calls (tick_begin (tick_locals s)) = []"
  by (simp add: tick_begin_def tick_locals_def Let_def hp_state.defs split: prod.splits)

lemma possible_cpus_split:
  "d < NR_CPUS \<Longrightarrow> possible_cpus = [0..<d] @ d # [Suc d..<NR_CPUS]"
proof -
  assume d: "d < NR_CPUS"
  have "[0..<d + (NR_CPUS - d)] = [0..<d] @ [d..<d + (NR_CPUS - d)]"
    by (rule upt_add_eq_append) simp
  with d have "[0..<NR_CPUS] = [0..<d] @ [d..<NR_CPUS]" by simp
  also from d have "[d..<NR_CPUS] = d # [Suc d..<NR_CPUS]" by (rule upt_conv_Cons)
  finally show ?thesis by (simp add: possible_cpus_def)
qed

lemma drift_loop:
  assumes d: "d < NR_CPUS" and drift: "online (od_hotplug_cpuinfo s d) \<noteq> online_of p d"
  shows "other_hotplugging (hotplug_loop p s) \<and> called_in {..<d} (hotplug_loop p s)"
proof -
  let ?l0 = "tick_begin (tick_locals s)"
  let ?la = "fold (hotplug_cpu p) [0..<d] ?l0"
  let ?lb = "hotplug_cpu p d ?la"
  have loop: "hotplug_loop p s = fold (hotplug_cpu p) [Suc d..<NR_CPUS] ?lb"
    by (simp add: hotplug_loop_def possible_cpus_split [OF d])
  have "online (od_hotplug_cpuinfo ?la d) = online (od_hotplug_cpuinfo s d)"
    by (simp add: online_fold begin_cpuinfo)
  with drift have b: "other_hotplugging ?lb \<and> calls ?lb = calls ?la"
    by (intro drift_step) simp
  have "called_in {..<d} ?l0" by (simp add: called_in_def begin_calls)
  then have "called_in {..<d} ?la" by (intro called_in_fold) auto
  with b have "called_in {..<d} ?lb" by (simp add: called_in_def)
  moreover from b other_stays_fold [of ?lb p "[Suc d..<NR_CPUS]"]
  have "other_hotplugging (hotplug_loop p s)" "calls (hotplug_loop p s) = calls ?lb"
    by (simp_all add: loop)
  ultimately show ?thesis by (simp add: called_in_def)
qed

lemma resync_cpu_fold:
  "od_hotplug_cpuinfo (fold (resync_cpu p) xs l) cpu =
     (if cpu \<in> set xs
      then (od_hotplug_cpuinfo l cpu)\<lparr>online := online_of p cpu, up_cpu := 1, up_by_cpu := - 1\<rparr>
      else od_hotplug_cpuinfo l cpu)"
  by (induction xs arbitrary: l) (auto simp: resync_cpu_def per_cpu_upd_def)

lemma resync_fold_frame:
  "hotplug_tuners_ins (fold (resync_cpu p) xs l) = hotplug_tuners_ins l"
  by (induction xs arbitrary: l) (simp_all add: resync_cpu_def per_cpu_upd_def)

lemma resync_cpuinfo:
  "other_hotplugging l \<Longrightarrow> cpu < NR_CPUS \<Longrightarrow>
   od_hotplug_cpuinfo (resync p l) cpu =
     (od_hotplug_cpuinfo l cpu)\<lparr>online := online_of p cpu, up_cpu := 1, up_by_cpu := - 1\<rparr>"
  by (simp add: resync_def resync_cpu_fold possible_cpus_def)

lemma resync_other: "other_hotplugging l \<Longrightarrow> \<not> other_hotplugging (resync p l)"
  by (simp add: resync_def)

lemma tick_end_cpuinfo:
  "online (od_hotplug_cpuinfo (tick_end p l) cpu) = online (od_hotplug_cpuinfo l cpu)
   \<and> up_by_cpu (od_hotplug_cpuinfo (tick_end p l) cpu) = up_by_cpu (od_hotplug_cpuinfo l cpu)
   \<and> (up_cpu (od_hotplug_cpuinfo l cpu) = 1 \<longrightarrow> up_cpu (od_hotplug_cpuinfo (tick_end p l) cpu) = 1)
   \<and> other_hotplugging (tick_end p l) = other_hotplugging l
   \<and> alucard_hotplug_online_work (tick_end p l) = alucard_hotplug_online_work l
   \<and> alucard_hotplug_work (tick_end p l)"
  by (simp add: tick_end_def Let_def per_cpu_upd_def)

lemma work_fn_state:
  "hotplug_enable (hotplug_tuners_ins s) > 0 \<Longrightarrow>
   fst (hotplug_work_fn p s) = hp_state.truncate (tick_end p (resync p (hotplug_loop p s)))"
  by (simp add: hotplug_work_fn_def tick_locals_enable Let_def)

lemma all_possible_cpus: "(\<forall>cpu<NR_CPUS. P cpu) = (P 0 \<and> P 1 \<and> P 2 \<and> P 3)"
proof -
  have "cpu < NR_CPUS \<longleftrightarrow> cpu = 0 \<or> cpu = 1 \<or> cpu = 2 \<or> cpu = 3" for cpu
    by (auto simp: NR_CPUS_def)
  then show ?thesis by auto
qed

section \<open>A tick that sees a recorded flag disagree with the hardware\<close>

text \<open>
  C2, as stated, fails: the disagreement is noticed when the loop reaches the core that
  shows it, and the cores below it have been evaluated by then. Core 3 is online but
  recorded offline; the tick takes the down check, and core 1, at 300000 kHz with an empty
  run queue, is handed to the take-offline executor before the loop reaches core 3.
\<close>

theorem C2_core_selected_before_drift_seen:
  "online (od_hotplug_cpuinfo (running [True, True, True, False] 19 4 0) 3) \<noteq> online_of drift_board 3
   \<and> snd (hotplug_work_fn drift_board (running [True, True, True, False] 19 4 0))
       = [Schedule_offline_work 1, Schedule_hotplug_work 60000]
   \<and> alucard_hotplug_offline_work (fst (hotplug_work_fn drift_board (running [True, True, True, False] 19 4 0)))"
  by (simp add: model_defs example_defs drift_board_def Let_def)

text \<open>
  C2, amended. In a tick in which the recorded flag of some core \<open>d\<close> disagrees with the
  hardware, no core with index \<open>d\<close> or above is handed to an executor (so none at all
  when \<open>d\<close> is core 0), and at the end of the tick every core's recorded flag equals the
  hardware status, every \<^verbatim>\<open>up_cpu\<close> is 1 and every \<^verbatim>\<open>up_by_cpu\<close> is -1,
  \<^verbatim>\<open>other_hotplugging\<close> is cleared, and the tick is scheduled again.
\<close>

theorem C2_drift_tick_resynchronizes:
  assumes en: "hotplug_enable (hotplug_tuners_ins s) > 0"
    and d: "d < NR_CPUS"
    and drift: "online (od_hotplug_cpuinfo s d) \<noteq> online_of p d"
  shows "(\<forall>cpu<NR_CPUS.
            online (od_hotplug_cpuinfo (fst (hotplug_work_fn p s)) cpu) = online_of p cpu
          \<and> up_cpu (od_hotplug_cpuinfo (fst (hotplug_work_fn p s)) cpu) = 1
          \<and> up_by_cpu (od_hotplug_cpuinfo (fst (hotplug_work_fn p s)) cpu) = - 1)
       \<and> (\<forall>c. Schedule_offline_work c \<in> set (snd (hotplug_work_fn p s))
               \<or> Schedule_online_work c \<in> set (snd (hotplug_work_fn p s)) \<longrightarrow> c < d)
       \<and> \<not> other_hotplugging (fst (hotplug_work_fn p s))
       \<and> alucard_hotplug_work (fst (hotplug_work_fn p s))
       \<and> (\<exists>delay. last (snd (hotplug_work_fn p s)) = Schedule_hotplug_work delay)"
proof -
  let ?l = "hotplug_loop p s"
  from drift_loop [OF d drift] have o: "other_hotplugging ?l" and c: "called_in {..<d} ?l"
    by simp_all
  have 1: "online (od_hotplug_cpuinfo (fst (hotplug_work_fn p s)) cpu) = online_of p cpu
          \<and> up_cpu (od_hotplug_cpuinfo (fst (hotplug_work_fn p s)) cpu) = 1
          \<and> up_by_cpu (od_hotplug_cpuinfo (fst (hotplug_work_fn p s)) cpu) = - 1"
    if "cpu < NR_CPUS" for cpu
    using tick_end_cpuinfo [of p "resync p ?l" cpu] resync_cpuinfo [OF o that, of p]
    by (simp add: work_fn_state [OF en] hp_state.defs)
  have 2: "c < d" if "Schedule_offline_work c \<in> set (snd (hotplug_work_fn p s))
               \<or> Schedule_online_work c \<in> set (snd (hotplug_work_fn p s))" for c
    using that c by (auto simp: work_fn_calls [OF en] called_in_def)
  have 3: "\<not> other_hotplugging (fst (hotplug_work_fn p s))" "alucard_hotplug_work (fst (hotplug_work_fn p s))"
    using tick_end_cpuinfo [of p "resync p ?l" 0] resync_other [OF o, of p]
    by (simp_all add: work_fn_state [OF en] hp_state.defs)
  have 4: "\<exists>delay. last (snd (hotplug_work_fn p s)) = Schedule_hotplug_work delay"
    by (simp add: work_fn_calls [OF en])
  from 1 2 3 4 show ?thesis by blast
qed


theorem C2_drift_tick_resynchronizes_witness:
  "hotplug_enable (hotplug_tuners_ins (running [True, True, True, False] 19 4 0)) > 0
   \<and> 3 < NR_CPUS
   \<and> online (od_hotplug_cpuinfo (running [True, True, True, False] 19 4 0) 3) \<noteq> online_of drift_board 3
   \<and> online (od_hotplug_cpuinfo (fst (hotplug_work_fn drift_board (running [True, True, True, False] 19 4 0))) 3)
       = online_of drift_board 3
   \<and> online (od_hotplug_cpuinfo (fst (hotplug_work_fn drift_board (running [True, True, True, False] 19 4 0))) 1)
       = online_of drift_board 1
   \<and> up_cpu (od_hotplug_cpuinfo (fst (hotplug_work_fn drift_board (running [True, True, True, False] 19 4 0))) 3) = 1
   \<and> up_by_cpu (od_hotplug_cpuinfo (fst (hotplug_work_fn drift_board (running [True, True, True, False] 19 4 0))) 3) = - 1
   \<and> Schedule_online_work 3 \<notin> set (snd (hotplug_work_fn drift_board (running [True, True, True, False] 19 4 0)))
   \<and> \<not> other_hotplugging (fst (hotplug_work_fn drift_board (running [True, True, True, False] 19 4 0)))
   \<and> alucard_hotplug_work (fst (hotplug_work_fn drift_board (running [True, True, True, False] 19 4 0)))"
proof -
  have en: "hotplug_enable (hotplug_tuners_ins (running [True, True, True, False] 19 4 0)) > 0"
    by (simp add: example_defs)
  have d: "3 < NR_CPUS" and d1: "1 < NR_CPUS" by (simp_all add: NR_CPUS_def)
  have drift: "online (od_hotplug_cpuinfo (running [True, True, True, False] 19 4 0) 3) \<noteq> online_of drift_board 3"
    by (simp add: example_defs model_defs drift_board_def)
  from C2_drift_tick_resynchronizes [OF en d drift] en d d1 drift show ?thesis by fastforce
qed

section \<open>Which core takes the up request\<close>

lemma store_frame:
  "other_hotplugging (store_prev_times p k l) = other_hotplugging l"
  "schedule_up_cpu (store_prev_times p k l) = schedule_up_cpu l"
  "up_cpu_req (store_prev_times p k l) = up_cpu_req l"
  "calls (store_prev_times p k l) = calls l"
  "alucard_hotplug_online_work (store_prev_times p k l) = alucard_hotplug_online_work l"
  "online (od_hotplug_cpuinfo (store_prev_times p k l) c) = online (od_hotplug_cpuinfo l c)"
  "up_by_cpu (od_hotplug_cpuinfo (store_prev_times p k l) c) = up_by_cpu (od_hotplug_cpuinfo l c)"
  by (simp_all add: store_prev_times_def per_cpu_upd_def)

lemma other_frame:
  "schedule_up_cpu (check_other_hotplugging onl k l) = schedule_up_cpu l"
  "up_cpu_req (check_other_hotplugging onl k l) = up_cpu_req l"
  "calls (check_other_hotplugging onl k l) = calls l"
  "alucard_hotplug_online_work (check_other_hotplugging onl k l) = alucard_hotplug_online_work l"
  "online (od_hotplug_cpuinfo (check_other_hotplugging onl k l) c) = online (od_hotplug_cpuinfo l c)"
  by (simp_all add: check_other_hotplugging_def per_cpu_upd_def Let_def)

lemma other_frame_up_by_cpu:
  "c \<noteq> k \<Longrightarrow> up_by_cpu (od_hotplug_cpuinfo (check_other_hotplugging onl k l) c)
     = up_by_cpu (od_hotplug_cpuinfo l c)"
  by (simp add: check_other_hotplugging_def per_cpu_upd_def Let_def)

lemma other_frame_no_drift:
  "online (od_hotplug_cpuinfo l k) = onl \<Longrightarrow>
   other_hotplugging (check_other_hotplugging onl k l) = other_hotplugging l"
  by (simp add: check_other_hotplugging_def per_cpu_upd_def Let_def)

lemma down_frame:
  "other_hotplugging (check_cpu_down load freq onl k l) = other_hotplugging l"
  "schedule_up_cpu (check_cpu_down load freq onl k l) = schedule_up_cpu l"
  "up_cpu_req (check_cpu_down load freq onl k l) = up_cpu_req l"
  "filter selects_online (calls (check_cpu_down load freq onl k l)) = filter selects_online (calls l)"
  "alucard_hotplug_online_work (check_cpu_down load freq onl k l) = alucard_hotplug_online_work l"
  "up_by_cpu (od_hotplug_cpuinfo (check_cpu_down load freq onl k l) c) = up_by_cpu (od_hotplug_cpuinfo l c)"
  by (simp_all add: check_cpu_down_def per_cpu_upd_def Let_def)

lemma down_frame_online:
  "c \<noteq> k \<Longrightarrow> online (od_hotplug_cpuinfo (check_cpu_down load freq onl k l) c)
     = online (od_hotplug_cpuinfo l c)"
  by (simp add: check_cpu_down_def per_cpu_upd_def Let_def)

lemma up_noop: "schedule_up_cpu l \<le> 0 \<Longrightarrow> check_cpu_up load freq onl k l = l"
  by (simp add: check_cpu_up_def Let_def)

lemma bring_noop: "schedule_up_cpu l \<noteq> 0 \<Longrightarrow> bring_cpu_up onl k l = l"
  by (simp add: bring_cpu_up_def)

lemma bring_noop_online: "bring_cpu_up (online_of p k) k l = (if cpu_online p k then l else bring_cpu_up 0 k l)"
  by (simp add: bring_cpu_up_def online_of_def)

lemma idle_pre:
  "online (od_hotplug_cpuinfo l k) = onl \<Longrightarrow>
   idle_up (check_other_hotplugging onl k (store_prev_times p k l)) = idle_up l"
  by (simp add: idle_up_def store_frame other_frame other_frame_no_drift)

lemma wait_pre:
  "online (od_hotplug_cpuinfo l k) = onl \<Longrightarrow>
   wait_up p k t (check_other_hotplugging onl k (store_prev_times p' k l)) = wait_up p k t l"
  by (simp add: wait_up_def store_frame other_frame other_frame_no_drift)

lemma done_pre:
  "online (od_hotplug_cpuinfo l k) = onl \<Longrightarrow>
   done_up p k t c (check_other_hotplugging onl k (store_prev_times p' k l)) = done_up p k t c l"
  by (auto simp: done_up_def store_frame other_frame other_frame_no_drift other_frame_up_by_cpu)

lemma idle_up_up:
  "idle_up l \<Longrightarrow> idle_up (check_cpu_up load freq (online_of p k) k l)
     \<or> up_trigger_now p k (check_cpu_up load freq (online_of p k) k l)"
  by (simp add: idle_up_def up_trigger_now_def check_cpu_up_def per_cpu_upd_def online_of_def Let_def)

lemma idle_down: "idle_up (check_cpu_down load freq onl k l) = idle_up l"
  by (simp add: idle_up_def down_frame)

lemma trig_down: "up_trigger_now p k (check_cpu_down load freq onl k l) = up_trigger_now p k l"
  by (simp add: up_trigger_now_def down_frame)

lemma wait_down: "wait_up p k t (check_cpu_down load freq onl k l) = wait_up p k t l"
  by (simp add: wait_up_def down_frame)

lemma done_down: "done_up p k t c (check_cpu_down load freq onl k l) = done_up p k t c l"
  by (auto simp: done_up_def down_frame down_frame_online)

lemma idle_bring: "idle_up l \<Longrightarrow> idle_up (bring_cpu_up onl k l)"
  by (simp add: idle_up_def bring_noop)

lemma trig_bring: "up_trigger_now p k l \<Longrightarrow> wait_up p (Suc k) k (bring_cpu_up (online_of p k) k l)"
  by (auto simp: up_trigger_now_def wait_up_def bring_noop_online less_Suc_eq)

lemma wait_bring_online:
  "cpu_online p k \<Longrightarrow> wait_up p k t l \<Longrightarrow> wait_up p (Suc k) t (bring_cpu_up (online_of p k) k l)"
  by (auto simp: wait_up_def bring_noop_online less_Suc_eq)

lemma wait_bring_offline:
  "\<not> cpu_online p k \<Longrightarrow> wait_up p k t l \<Longrightarrow> done_up p (Suc k) t k (bring_cpu_up (online_of p k) k l)"
  by (simp add: wait_up_def done_up_def bring_cpu_up_def online_of_def per_cpu_upd_def)

lemma done_bring: "done_up p k t c l \<Longrightarrow> done_up p (Suc k) t c (bring_cpu_up onl k l)"
  by (simp add: done_up_def bring_noop)

lemma hotplug_cpu_no_drift:
  "online (od_hotplug_cpuinfo l k) = online_of p k \<Longrightarrow> \<not> other_hotplugging l \<Longrightarrow>
   hotplug_cpu p k l =
     evaluate_cpu p (wall_time p k l) (idle_time p k l) (online_of p k) k
       (check_other_hotplugging (online_of p k) k (store_prev_times p k l))"
  by (simp add: hotplug_cpu_def Let_def store_frame other_frame_no_drift)

lemma idle_step:
  assumes "online (od_hotplug_cpuinfo l k) = online_of p k" "idle_up l"
  shows "idle_up (hotplug_cpu p k l) \<or> wait_up p (Suc k) k (hotplug_cpu p k l)"
proof -
  let ?l1 = "check_other_hotplugging (online_of p k) k (store_prev_times p k l)"
  from assms have 1: "idle_up ?l1" by (simp add: idle_pre)
  from assms have h: "hotplug_cpu p k l =
     evaluate_cpu p (wall_time p k l) (idle_time p k l) (online_of p k) k ?l1"
    by (intro hotplug_cpu_no_drift) (simp_all add: idle_up_def)
  let ?load = "cur_load (wall_time p k l) (idle_time p k l) (online_of p k)"
  let ?freq = "cur_freq p (accurate ?l1) (wall_time p k l) (idle_time p k l) (online_of p k) k"
  let ?l2 = "check_cpu_up ?load ?freq (online_of p k) k ?l1"
  let ?l3 = "check_cpu_down ?load ?freq (online_of p k) k ?l2"
  have e: "hotplug_cpu p k l = bring_cpu_up (online_of p k) k ?l3"
    by (simp add: h evaluate_cpu_def Let_def)
  from 1 have "idle_up ?l2 \<or> up_trigger_now p k ?l2" by (rule idle_up_up)
  then have "idle_up ?l3 \<or> up_trigger_now p k ?l3" by (simp add: idle_down trig_down)
  then show ?thesis
  proof
    assume "idle_up ?l3"
    then show ?thesis unfolding e by (intro disjI1 idle_bring)
  next
    assume "up_trigger_now p k ?l3"
    then show ?thesis unfolding e by (intro disjI2 trig_bring)
  qed
qed

lemma wait_step_online:
  assumes "online (od_hotplug_cpuinfo l k) = online_of p k" "cpu_online p k" "wait_up p k t l"
  shows "wait_up p (Suc k) t (hotplug_cpu p k l)"
proof -
  let ?l1 = "check_other_hotplugging (online_of p k) k (store_prev_times p k l)"
  from assms have 1: "wait_up p k t ?l1" by (simp add: wait_pre)
  from assms have h: "hotplug_cpu p k l =
     evaluate_cpu p (wall_time p k l) (idle_time p k l) (online_of p k) k ?l1"
    by (intro hotplug_cpu_no_drift) (simp_all add: wait_up_def)
  from 1 have "schedule_up_cpu ?l1 \<le> 0" by (simp add: wait_up_def)
  with 1 assms(2) show ?thesis
    unfolding h evaluate_cpu_def Let_def
    by (simp add: up_noop wait_down wait_bring_online)
qed

lemma wait_step_offline:
  assumes "online (od_hotplug_cpuinfo l k) = online_of p k" "\<not> cpu_online p k" "wait_up p k t l"
  shows "done_up p (Suc k) t k (hotplug_cpu p k l)"
proof -
  let ?l1 = "check_other_hotplugging (online_of p k) k (store_prev_times p k l)"
  from assms have 1: "wait_up p k t ?l1" by (simp add: wait_pre)
  from assms have h: "hotplug_cpu p k l =
     evaluate_cpu p (wall_time p k l) (idle_time p k l) (online_of p k) k ?l1"
    by (intro hotplug_cpu_no_drift) (simp_all add: wait_up_def)
  from 1 have "schedule_up_cpu ?l1 \<le> 0" by (simp add: wait_up_def)
  with 1 assms(2) show ?thesis
    unfolding h evaluate_cpu_def Let_def
    by (simp add: up_noop wait_down wait_bring_offline)
qed

lemma done_step:
  assumes "online (od_hotplug_cpuinfo l k) = online_of p k" "done_up p k t c l"
  shows "done_up p (Suc k) t c (hotplug_cpu p k l)"
proof -
  let ?l1 = "check_other_hotplugging (online_of p k) k (store_prev_times p k l)"
  from assms have 1: "done_up p k t c ?l1" by (simp add: done_pre)
  from assms have h: "hotplug_cpu p k l =
     evaluate_cpu p (wall_time p k l) (idle_time p k l) (online_of p k) k ?l1"
    by (intro hotplug_cpu_no_drift) (simp_all add: done_up_def)
  from 1 have "schedule_up_cpu ?l1 \<le> 0" by (simp add: done_up_def)
  with 1 show ?thesis
    unfolding h evaluate_cpu_def Let_def
    by (simp add: up_noop done_down done_bring)
qed

lemma up_progress_step:
  "online (od_hotplug_cpuinfo l k) = online_of p k \<Longrightarrow> up_progress p k l
   \<Longrightarrow> up_progress p (Suc k) (hotplug_cpu p k l)"
  unfolding up_progress_def
  using idle_step [of l k p] wait_step_online [of l k p] wait_step_offline [of l k p] done_step [of l k p]
  by blast


lemma idle_begin: "idle_up (tick_begin (tick_locals s))"
  by (simp add: idle_up_def tick_begin_def tick_locals_def Let_def hp_state.defs split: prod.splits)

lemma up_progress_prefix:
  assumes nd: "\<forall>cpu<NR_CPUS. online (od_hotplug_cpuinfo s cpu) = online_of p cpu"
  shows "k \<le> NR_CPUS \<Longrightarrow> up_progress p k (fold (hotplug_cpu p) [0..<k] (tick_begin (tick_locals s)))"
proof (induction k)
  case 0
  show ?case by (simp add: up_progress_def idle_begin)
next
  case (Suc k)
  let ?l = "fold (hotplug_cpu p) [0..<k] (tick_begin (tick_locals s))"
  from Suc have ih: "up_progress p k ?l" and k: "k < NR_CPUS" by simp_all
  have "online (od_hotplug_cpuinfo ?l k) = online (od_hotplug_cpuinfo s k)"
    by (simp add: online_fold begin_cpuinfo)
  with nd k have "online (od_hotplug_cpuinfo ?l k) = online_of p k" by simp
  from up_progress_step [OF this ih] show ?case by simp
qed

lemma up_progress_loop:
  "\<forall>cpu<NR_CPUS. online (od_hotplug_cpuinfo s cpu) = online_of p cpu
   \<Longrightarrow> up_progress p NR_CPUS (hotplug_loop p s)"
  unfolding hotplug_loop_def possible_cpus_def by (rule up_progress_prefix) simp_all

lemma done_up_unique:
  assumes "done_up p k t c l" "up_cpu_req l = int t'" "t' < c'" "\<not> cpu_online p c'"
    "\<forall>j. t' < j \<and> j < c' \<longrightarrow> cpu_online p j"
  shows "t = t' \<and> c = c'"
proof -
  from assms(1,2) have t: "t = t'" by (simp add: done_up_def)
  from assms(1) have c: "t < c" "\<not> cpu_online p c" "\<forall>j. t \<le> j \<and> j < c \<longrightarrow> cpu_online p j"
    by (simp_all add: done_up_def)
  have "\<not> c < c'" using c(1,2) assms(5) t by auto
  moreover have "\<not> c' < c" using c(3) assms(3,4) t by auto
  ultimately show ?thesis using t by simp
qed

lemma loop_selects_lowest_above:
  assumes nd: "\<forall>cpu<NR_CPUS. online (od_hotplug_cpuinfo s cpu) = online_of p cpu"
    and req: "up_cpu_req (hotplug_loop p s) = int t"
    and c: "t < c" "c < NR_CPUS" "\<not> cpu_online p c" "\<forall>j. t < j \<and> j < c \<longrightarrow> cpu_online p j"
  shows "done_up p NR_CPUS t c (hotplug_loop p s)"
proof -
  from up_progress_loop [OF nd]
  consider "idle_up (hotplug_loop p s)" | t' where "wait_up p NR_CPUS t' (hotplug_loop p s)"
    | t' c' where "done_up p NR_CPUS t' c' (hotplug_loop p s)"
    unfolding up_progress_def by blast
  then show ?thesis
  proof cases
    case 1
    with req show ?thesis by (simp add: idle_up_def)
  next
    case 2
    with req have "t' = t" by (simp add: wait_up_def)
    with 2 c show ?thesis by (auto simp: wait_up_def)
  next
    case 3
    from done_up_unique [OF 3 req c(1,3,4)] 3 show ?thesis by simp
  qed
qed


lemma resync_no_drift: "\<not> other_hotplugging l \<Longrightarrow> resync p l = l"
  by (simp add: resync_def)

text \<open>
  C4, as stated, fails: the request is taken inside the loop, by the first offline core
  the loop reaches after the trigger. Cores 0 and 2 are online, cores 1 and 3 offline;
  core 0 is at 10 percent load and core 2 at 90 percent, so core 2 is the trigger; core 3
  is marked online with \<^verbatim>\<open>up_by_cpu\<close> 2, and core 1, the lowest offline core, stays
  offline.
\<close>

theorem C4_core_below_trigger_skipped:
  "up_cpu_req (hotplug_loop uneven_board (running [True, False, True, False] 9 4 350)) = 2
   \<and> \<not> cpu_online uneven_board 1
   \<and> snd (hotplug_work_fn uneven_board (running [True, False, True, False] 9 4 350))
       = [Schedule_online_work 3, Schedule_hotplug_work 60000]
   \<and> online (od_hotplug_cpuinfo (fst (hotplug_work_fn uneven_board (running [True, False, True, False] 9 4 350))) 1) = 0
   \<and> online (od_hotplug_cpuinfo (fst (hotplug_work_fn uneven_board (running [True, False, True, False] 9 4 350))) 3) = 1
   \<and> up_by_cpu (od_hotplug_cpuinfo (fst (hotplug_work_fn uneven_board (running [True, False, True, False] 9 4 350))) 3) = 2"
  by (simp add: model_defs example_defs uneven_board_def Let_def)

text \<open>
  C4, amended. In a tick in which every recorded flag agrees with the hardware, an up
  trigger \<open>t\<close> was recorded and some core above \<open>t\<close> is offline, the one core handed
  to the bring-online executor is \<open>c\<close>, the lowest-indexed offline core above \<open>t\<close>:
  it is chosen inside the loop, its recorded flag becomes 1 and its \<^verbatim>\<open>up_by_cpu\<close>
  becomes \<open>t\<close>. An offline core below the trigger is not chosen.
\<close>

theorem C4_first_offline_core_above_trigger:
  assumes en: "hotplug_enable (hotplug_tuners_ins s) > 0"
    and nd: "\<forall>cpu<NR_CPUS. online (od_hotplug_cpuinfo s cpu) = online_of p cpu"
    and req: "up_cpu_req (hotplug_loop p s) = int t"
    and c: "t < c" "c < NR_CPUS" "\<not> cpu_online p c" "\<forall>j. t < j \<and> j < c \<longrightarrow> cpu_online p j"
  shows "filter selects_online (snd (hotplug_work_fn p s)) = [Schedule_online_work c]
     \<and> online (od_hotplug_cpuinfo (fst (hotplug_work_fn p s)) c) = 1
     \<and> up_by_cpu (od_hotplug_cpuinfo (fst (hotplug_work_fn p s)) c) = int t
     \<and> alucard_hotplug_online_work (fst (hotplug_work_fn p s))"
proof -
  let ?l = "hotplug_loop p s"
  from loop_selects_lowest_above [OF nd req c] have d: "done_up p NR_CPUS t c ?l" .
  then have r: "resync p ?l = ?l" by (intro resync_no_drift) (simp add: done_up_def)
  from d have "filter selects_online (snd (hotplug_work_fn p s)) = [Schedule_online_work c]"
    by (simp add: work_fn_calls [OF en] done_up_def)
  moreover from d tick_end_cpuinfo [of p ?l c]
  have "online (od_hotplug_cpuinfo (fst (hotplug_work_fn p s)) c) = 1"
    "up_by_cpu (od_hotplug_cpuinfo (fst (hotplug_work_fn p s)) c) = int t"
    "alucard_hotplug_online_work (fst (hotplug_work_fn p s))"
    by (simp_all add: work_fn_state [OF en] r hp_state.defs done_up_def)
  ultimately show ?thesis by simp
qed

theorem C4_first_offline_core_above_trigger_witness:
  "hotplug_enable (hotplug_tuners_ins (running [True, False, True, False] 9 4 350)) > 0
   \<and> online (od_hotplug_cpuinfo (running [True, False, True, False] 9 4 350) 0) = online_of uneven_board 0
   \<and> online (od_hotplug_cpuinfo (running [True, False, True, False] 9 4 350) 1) = online_of uneven_board 1
   \<and> online (od_hotplug_cpuinfo (running [True, False, True, False] 9 4 350) 2) = online_of uneven_board 2
   \<and> online (od_hotplug_cpuinfo (running [True, False, True, False] 9 4 350) 3) = online_of uneven_board 3
   \<and> up_cpu_req (hotplug_loop uneven_board (running [True, False, True, False] 9 4 350)) = int 2
   \<and> (2::nat) < 3 \<and> 3 < NR_CPUS \<and> \<not> cpu_online uneven_board 3
   \<and> filter selects_online (snd (hotplug_work_fn uneven_board (running [True, False, True, False] 9 4 350)))
       = [Schedule_online_work 3]
   \<and> online (od_hotplug_cpuinfo (fst (hotplug_work_fn uneven_board (running [True, False, True, False] 9 4 350))) 3) = 1
   \<and> up_by_cpu (od_hotplug_cpuinfo (fst (hotplug_work_fn uneven_board (running [True, False, True, False] 9 4 350))) 3)
       = int 2"
proof -
  have en: "hotplug_enable (hotplug_tuners_ins (running [True, False, True, False] 9 4 350)) > 0"
    by (simp add: example_defs)
  have nd4: "online (od_hotplug_cpuinfo (running [True, False, True, False] 9 4 350) 0) = online_of uneven_board 0"
    "online (od_hotplug_cpuinfo (running [True, False, True, False] 9 4 350) 1) = online_of uneven_board 1"
    "online (od_hotplug_cpuinfo (running [True, False, True, False] 9 4 350) 2) = online_of uneven_board 2"
    "online (od_hotplug_cpuinfo (running [True, False, True, False] 9 4 350) 3) = online_of uneven_board 3"
    by (simp_all add: example_defs model_defs uneven_board_def)
  then have nd: "\<forall>cpu<NR_CPUS. online (od_hotplug_cpuinfo (running [True, False, True, False] 9 4 350) cpu)
          = online_of uneven_board cpu"
    unfolding all_possible_cpus by simp
  have req: "up_cpu_req (hotplug_loop uneven_board (running [True, False, True, False] 9 4 350)) = int 2"
    by (simp add: model_defs example_defs uneven_board_def Let_def)
  have c: "(2::nat) < 3" "3 < NR_CPUS" "\<not> cpu_online uneven_board 3"
    "\<forall>j. 2 < j \<and> j < 3 \<longrightarrow> cpu_online uneven_board j"
    by (auto simp: NR_CPUS_def uneven_board_def board_def)
  from C4_first_offline_core_above_trigger [OF en nd req c] en nd4 req c(1,2,3) show ?thesis by simp
qed

section \<open>The rows of the threshold tables\<close>











section \<open>The rate checks\<close>








section \<open>The sampler read after every sample\<close>

lemmas rq_defs = rq_work_fn_def do_div_def get_nr_run_avg_def u32_def u64_def s64_def
  start_rq_work_def init_rq_avg_def RQ_AVG_TIMER_RATE_def

lemma rq_work_fn_after_read:
  "nr_run_avg r = 0 \<Longrightarrow>
   \<exists>r'. rq_work_fn t n r = Inr r' \<and> nr_run_avg r' = u32 (u32 n * 100)"
  by (auto simp: rq_work_fn_def do_div_def Let_def u32_def split: if_splits sum.splits)

text \<open>
  The average of 300 arises when the two samples are taken without a read in between, in
  a sampler whose first sample is 10 ms after its last one; in a sampler just started the
  first sample has no elapsed time and the second replaces it.
\<close>

lemma two_samples_without_read:
  "sample_all [(1010000000, 2), (1020000000, 4)]
     ((start_rq_work init_rq_avg)\<lparr>last_time := 1000000000\<rparr>) = Inr 300
   \<and> sample_all [(1010000000, 2), (1020000000, 4)] (start_rq_work init_rq_avg) = Inr 400"
  by (simp add: rq_defs Let_def)

text \<open>
  C5, as stated, fails: a sampler just started, sampled with 2 runnable tasks and 10 ms
  later with 4, and read after each sample, returns 200, then 400, then 0. The read after
  the first sample zeroes the average, and a zero average makes the next sample restart
  the accumulated time, so the second sample is not averaged with the first.
\<close>

theorem C5_second_read_is_400:
  "sample_and_read [(1000000000, 2), (1010000000, 4)] (start_rq_work init_rq_avg)
     = Inr [200, 400, 0]
   \<and> sample_and_read [(1000000000, 2), (1010000000, 4)] (start_rq_work init_rq_avg)
     \<noteq> Inr [200, 300, 0]"
  by (simp add: rq_defs Let_def)

text \<open>
  C5, amended. Starting from a sampler whose average is 0 (just started, or just read),
  a sample of 2 runnable tasks, a read, a sample of 4 runnable tasks, a read and a further
  read return 200, 400 and 0, whatever the sample times are.
\<close>

theorem C5_reads_return_last_sample:
  "nr_run_avg r = 0 \<Longrightarrow> sample_and_read [(t1, 2), (t2, 4)] r = Inr [200, 400, 0]"
proof -
  assume a: "nr_run_avg r = 0"
  from rq_work_fn_after_read [OF a, of t1 2] obtain r1 where
    r1: "rq_work_fn t1 2 r = Inr r1" "nr_run_avg r1 = 200" by (auto simp: u32_def)
  have z: "nr_run_avg (snd (get_nr_run_avg r1)) = 0" by (simp add: get_nr_run_avg_def)
  from rq_work_fn_after_read [OF z, of t2 4] obtain r2 where
    r2: "rq_work_fn t2 4 (snd (get_nr_run_avg r1)) = Inr r2" "nr_run_avg r2 = 400"
    by (auto simp: u32_def)
  show ?thesis using r1 r2 by (simp add: get_nr_run_avg_def)
qed

theorem C5_reads_return_last_sample_witness:
  "nr_run_avg (start_rq_work init_rq_avg) = 0
   \<and> sample_and_read [(1000000000, 2), (1010000000, 4)] (start_rq_work init_rq_avg)
       = Inr [200, 400, 0]"
proof -
  have h: "nr_run_avg (start_rq_work init_rq_avg) = 0" by (simp add: start_rq_work_def)
  from C5_reads_return_last_sample [OF h] h show ?thesis by simp
qed

section \<open>Disabling\<close>





section \<open>The decisions of one iteration of the loop\<close>


lemma pre_frame:
  "check_up (check_other_hotplugging onl cpu (store_prev_times p cpu l)) = check_up l"
  "check_down (check_other_hotplugging onl cpu (store_prev_times p cpu l)) = check_down l"
  "upmaxcoreslimit (check_other_hotplugging onl cpu (store_prev_times p cpu l)) = upmaxcoreslimit l"
  "downmaxcoreslimit (check_other_hotplugging onl cpu (store_prev_times p cpu l)) = downmaxcoreslimit l"
  "schedule_up_cpu (check_other_hotplugging onl cpu (store_prev_times p cpu l)) = schedule_up_cpu l"
  "schedule_down_cpu (check_other_hotplugging onl cpu (store_prev_times p cpu l)) = schedule_down_cpu l"
  "rq_avg (check_other_hotplugging onl cpu (store_prev_times p cpu l)) = rq_avg l"
  "accurate (check_other_hotplugging onl cpu (store_prev_times p cpu l)) = accurate l"
  "calls (check_other_hotplugging onl cpu (store_prev_times p cpu l)) = calls l"
  "hotplug_freq (check_other_hotplugging onl cpu (store_prev_times p cpu l)) = hotplug_freq l"
  "hotplug_load (check_other_hotplugging onl cpu (store_prev_times p cpu l)) = hotplug_load l"
  "hotplug_rq (check_other_hotplugging onl cpu (store_prev_times p cpu l)) = hotplug_rq l"
  by (simp_all add: check_other_hotplugging_def store_prev_times_def per_cpu_upd_def Let_def)



lemma up_frame:
  "check_down (check_cpu_up load freq onl cpu l) = check_down l"
  "downmaxcoreslimit (check_cpu_up load freq onl cpu l) = downmaxcoreslimit l"
  "schedule_down_cpu (check_cpu_up load freq onl cpu l) = schedule_down_cpu l"
  "rq_avg (check_cpu_up load freq onl cpu l) = rq_avg l"
  "calls (check_cpu_up load freq onl cpu l) = calls l"
  "hotplug_freq (check_cpu_up load freq onl cpu l) = hotplug_freq l"
  "hotplug_load (check_cpu_up load freq onl cpu l) = hotplug_load l"
  "hotplug_rq (check_cpu_up load freq onl cpu l) = hotplug_rq l"
  by (simp_all add: check_cpu_up_def per_cpu_upd_def Let_def)
















section \<open>The rate checks as gates of the evaluations\<close>












section \<open>Core 0 in a run of the controller\<close>

lemma down_core0_id: "check_cpu_down load freq onl 0 l = l"
  using u32_nonneg [of "downmaxcoreslimit l"] by (simp add: check_cpu_down_def Let_def)

lemma core0_step:
  "online (od_hotplug_cpuinfo l 0) = 1 \<Longrightarrow> online (od_hotplug_cpuinfo (hotplug_cpu p cpu l) 0) = 1"
proof (cases "cpu = 0")
  case False
  assume "online (od_hotplug_cpuinfo l 0) = 1"
  with False show ?thesis by (simp add: online_step)
next
  case True
  assume a: "online (od_hotplug_cpuinfo l 0) = 1"
  have b: "online (od_hotplug_cpuinfo l' 0) = 1 \<Longrightarrow> online (od_hotplug_cpuinfo (bring_cpu_up onl 0 l') 0) = 1" for l' onl
    by (simp add: bring_cpu_up_def per_cpu_upd_def)
  from a show ?thesis
    unfolding True hotplug_cpu_def evaluate_cpu_def Let_def
    by (simp add: down_core0_id b online_up online_other online_store)
qed

lemma core0_fold:
  "online (od_hotplug_cpuinfo l 0) = 1 \<Longrightarrow> online (od_hotplug_cpuinfo (fold (hotplug_cpu p) xs l) 0) = 1"
  by (induction xs arbitrary: l) (simp_all add: core0_step)

lemma core0_tick:
  assumes "cpu_online p 0" "online (od_hotplug_cpuinfo s 0) = 1"
  shows "online (od_hotplug_cpuinfo (fst (hotplug_work_fn p s)) 0) = 1"
proof (cases "hotplug_enable (hotplug_tuners_ins s) > 0")
  case False
  with assms show ?thesis by (simp add: hotplug_work_fn_def tick_locals_enable)
next
  case True
  let ?l = "hotplug_loop p s"
  have l: "online (od_hotplug_cpuinfo ?l 0) = 1"
    unfolding hotplug_loop_def using assms(2) by (intro core0_fold) (simp add: begin_cpuinfo)
  have "online (od_hotplug_cpuinfo (resync p ?l) 0) = 1"
  proof (cases "other_hotplugging ?l")
    case True
    have "0 < NR_CPUS" by (simp add: NR_CPUS_def)
    from resync_cpuinfo [OF True this, of p] assms(1) show ?thesis by (simp add: online_of_def)
  next
    case False
    with l show ?thesis by (simp add: resync_def)
  qed
  with tick_end_cpuinfo [of p "resync p ?l" 0] show ?thesis
    by (simp add: work_fn_state [OF True] hp_state.defs)
qed

lemma no_platform_call_step:
  "filter platform_call (calls (hotplug_cpu p cpu l)) = filter platform_call (calls l)"
proof -
  have 1: "filter platform_call (calls (check_cpu_down load freq onl cpu l)) = filter platform_call (calls l)"
    for load freq onl l
    by (simp add: check_cpu_down_def per_cpu_upd_def Let_def)
  have 2: "filter platform_call (calls (bring_cpu_up onl cpu l)) = filter platform_call (calls l)" for onl l
    by (simp add: bring_cpu_up_def per_cpu_upd_def Let_def)
  show ?thesis
    by (simp add: hotplug_cpu_def evaluate_cpu_def Let_def 1 2 up_frame pre_frame)
qed

lemma no_platform_call_fold:
  "filter platform_call (calls (fold (hotplug_cpu p) xs l)) = filter platform_call (calls l)"
  by (induction xs arbitrary: l) (simp_all add: no_platform_call_step)

lemma tick_no_platform_call: "filter platform_call (snd (hotplug_work_fn p s)) = []"
proof (cases "hotplug_enable (hotplug_tuners_ins s) > 0")
  case False
  then show ?thesis by (simp add: hotplug_work_fn_def tick_locals_enable)
next
  case True
  show ?thesis
    by (simp add: work_fn_calls [OF True] hotplug_loop_def no_platform_call_fold begin_calls)
qed

lemma tick_no_cpu_down: "Cpu_down c \<notin> set (snd (hotplug_work_fn p s))"
proof
  assume "Cpu_down c \<in> set (snd (hotplug_work_fn p s))"
  then have "Cpu_down c \<in> set (filter platform_call (snd (hotplug_work_fn p s)))" by simp
  then show False by (simp add: tick_no_platform_call)
qed

lemma core0_kept_tick:
  assumes "cpu_online p 0" "online (od_hotplug_cpuinfo s 0) = 1"
  shows "core0_kept (hotplug_work_fn p s)"
  using core0_tick [OF assms] tick_no_cpu_down [of 0 p s] offline_calls_above_floor [of 0 p s]
  by (auto simp: core0_kept_def)

lemma seed_fold_cpuinfo:
  "od_hotplug_cpuinfo (fold (seed_cpu p) xs s) cpu =
     (if cpu \<in> set xs
      then (od_hotplug_cpuinfo s cpu)\<lparr>prev_cpu_idle := cur_idle_time p cpu,
              prev_cpu_wall := cpu_wall_time_us p cpu, up_cpu := 1,
              online := online_of p cpu, up_by_cpu := - 1\<rparr>
      else od_hotplug_cpuinfo s cpu)"
  by (induction xs arbitrary: s) (auto simp: seed_cpu_def per_cpu_upd_def)

lemma enable_seeds_core0:
  "cpu_online p 0 \<Longrightarrow> online (od_hotplug_cpuinfo (fst (cpus_hotplugging True p s)) 0) = 1"
  by (simp add: cpus_hotplugging_def Let_def seed_fold_cpuinfo possible_cpus_def NR_CPUS_def online_of_def)

lemma core0_kept_enable:
  assumes "cpu_online p 0" "online (od_hotplug_cpuinfo s 0) = 1"
  shows "core0_kept (stored_calls (store_hotplug_enable input p s) s)"
proof (cases input)
  case None
  with assms show ?thesis by (simp add: store_hotplug_enable_def stored_calls_def core0_kept_def)
next
  case (Some i)
  show ?thesis
  proof (cases "hotplug_enable (hotplug_tuners_ins s) = (if i > 0 then 1 else 0)")
    case True
    with assms Some show ?thesis
      by (simp add: store_hotplug_enable_def stored_calls_def core0_kept_def Let_def)
  next
    case False
    show ?thesis
    proof (cases "i > 0")
      case True
      with False Some enable_seeds_core0 [OF assms(1), of s] show ?thesis
        by (simp add: store_hotplug_enable_def stored_calls_def core0_kept_def Let_def
            cpus_hotplugging_def split: prod.splits)
    next
      case neg: False
      with False Some assms(2) show ?thesis
        by (auto simp: store_hotplug_enable_def stored_calls_def core0_kept_def Let_def
            cpus_hotplugging_def split: prod.splits)
    qed
  qed
qed

lemma core0_kept_step:
  assumes "core0_online e" "online (od_hotplug_cpuinfo s 0) = 1"
  shows "core0_kept (step e s)"
proof (cases e)
  case (Store_hotplug_enable input p)
  with assms core0_kept_enable show ?thesis by simp
next
  case (Store_hotplug_sampling_rate input sooner)
  with assms show ?thesis
    by (auto simp: core0_kept_def stored_calls_def store_hotplug_sampling_rate_def
        update_sampling_rate_def Let_def split: option.splits)
next
  case (Store_cpu_up_rate input)
  with assms show ?thesis
    by (auto simp: core0_kept_def stored_def store_cpu_up_rate_def Let_def split: option.splits)
next
  case (Store_cpu_down_rate input)
  with assms show ?thesis
    by (auto simp: core0_kept_def stored_def store_cpu_down_rate_def Let_def split: option.splits)
next
  case (Store_maxcoreslimit input)
  with assms show ?thesis
    by (auto simp: core0_kept_def stored_def store_maxcoreslimit_def Let_def split: option.splits)
next
  case (Store_accuratecpufreq input)
  with assms show ?thesis
    by (auto simp: core0_kept_def stored_def store_accuratecpufreq_def Let_def split: option.splits)
next
  case (Store_hotplug_param tb num_core up_down input)
  with assms show ?thesis
    by (auto simp: core0_kept_def stored_def store_hotplug_param_def Let_def
        split: option.splits table.splits)
next
  case (Hotplug_work p)
  with assms core0_kept_tick [of p "s\<lparr>alucard_hotplug_work := False\<rparr>"] show ?thesis
    by (simp add: core0_kept_def)
next
  case (Online_work p)
  with assms show ?thesis by (auto simp: core0_kept_def cpu_online_work_fn_def)
next
  case (Offline_work p p')
  with assms show ?thesis
    by (auto simp: core0_kept_def cpu_offline_work_fn_def per_cpu_upd_def)
next
  case (Rq_work cur_time nr_running)
  with assms show ?thesis
    by (auto simp: core0_kept_def stored_def split: sum.splits)
qed

lemma core0_kept_run:
  "list_all core0_online es \<Longrightarrow> online (od_hotplug_cpuinfo s 0) = 1 \<Longrightarrow> core0_kept (run es s)"
proof (induction es arbitrary: s)
  case Nil
  then show ?case by (simp add: core0_kept_def)
next
  case (Cons e es)
  from Cons.prems have e: "core0_online e" and es: "list_all core0_online es" by simp_all
  from core0_kept_step [OF e Cons.prems(2)] have 1: "core0_kept (step e s)" .
  then have "online (od_hotplug_cpuinfo (fst (step e s)) 0) = 1" by (simp add: core0_kept_def)
  from Cons.IH [OF es this] have 2: "core0_kept (run es (fst (step e s)))" .
  from 1 2 show ?case by (simp add: core0_kept_def)
qed


text \<open>
  C7, amended. A core that a tick hands to the take-offline executor is never core 0 and
  always lies above the floor of the down evaluation, which is 0 when the cap equals
  \<^verbatim>\<open>NR_CPUS\<close> and the cap minus one otherwise: with a cap \<open>m\<close> below \<^verbatim>\<open>NR_CPUS\<close>
  only cores with index at least \<open>m\<close> are handed over. In a run of the controller that
  starts with core 0 recorded online, and in which core 0 is online whenever the
  controller is enabled or a tick runs, core 0 stays recorded online and neither the
  take-offline executor nor disabling ever calls \<^verbatim>\<open>cpu_down\<close> for core 0. Enabling on a
  platform with core 0 online records core 0 online.
\<close>

theorem C7_core0_kept_and_floor:
  "(Schedule_offline_work c \<in> set (snd (hotplug_work_fn p s)) \<longrightarrow>
      0 < c \<and> c < NR_CPUS
      \<and> u32 (if maxcoreslimit (hotplug_tuners_ins s) = int NR_CPUS then 0
             else s32 (maxcoreslimit (hotplug_tuners_ins s) - 1)) < int c
      \<and> (1 \<le> maxcoreslimit (hotplug_tuners_ins s) \<and> maxcoreslimit (hotplug_tuners_ins s) < int NR_CPUS
           \<longrightarrow> maxcoreslimit (hotplug_tuners_ins s) \<le> int c))
   \<and> (list_all core0_online es \<and> online (od_hotplug_cpuinfo s0 0) = 1 \<longrightarrow>
        Cpu_down 0 \<notin> set (snd (run es s0))
        \<and> Schedule_offline_work 0 \<notin> set (snd (run es s0))
        \<and> online (od_hotplug_cpuinfo (fst (run es s0)) 0) = 1)
   \<and> (cpu_online p1 0 \<longrightarrow> online (od_hotplug_cpuinfo (fst (cpus_hotplugging True p1 s1)) 0) = 1)"
proof -
  have "0 < c \<and> c < NR_CPUS
      \<and> u32 (if maxcoreslimit (hotplug_tuners_ins s) = int NR_CPUS then 0
             else s32 (maxcoreslimit (hotplug_tuners_ins s) - 1)) < int c
      \<and> (1 \<le> maxcoreslimit (hotplug_tuners_ins s) \<and> maxcoreslimit (hotplug_tuners_ins s) < int NR_CPUS
           \<longrightarrow> maxcoreslimit (hotplug_tuners_ins s) \<le> int c)"
    if a: "Schedule_offline_work c \<in> set (snd (hotplug_work_fn p s))"
  proof -
    from offline_calls_above_floor [OF a]
    have b: "0 < c" "c < NR_CPUS"
      "u32 (if maxcoreslimit (hotplug_tuners_ins s) = int NR_CPUS then 0
            else s32 (maxcoreslimit (hotplug_tuners_ins s) - 1)) < int c"
      by (simp_all add: downmaxcoreslimit_locals)
    have "maxcoreslimit (hotplug_tuners_ins s) \<le> int c"
      if "1 \<le> maxcoreslimit (hotplug_tuners_ins s)" "maxcoreslimit (hotplug_tuners_ins s) < int NR_CPUS"
      using b(3) floor_below_cap [OF that] by simp
    with b show ?thesis by blast
  qed
  moreover have "Cpu_down 0 \<notin> set (snd (run es s0))
        \<and> Schedule_offline_work 0 \<notin> set (snd (run es s0))
        \<and> online (od_hotplug_cpuinfo (fst (run es s0)) 0) = 1"
    if "list_all core0_online es" "online (od_hotplug_cpuinfo s0 0) = 1"
    using core0_kept_run [OF that] by (simp add: core0_kept_def)
  moreover have "online (od_hotplug_cpuinfo (fst (cpus_hotplugging True p1 s1)) 0) = 1"
    if "cpu_online p1 0"
    using that by (rule enable_seeds_core0)
  ultimately show ?thesis by blast
qed

theorem C7_core0_kept_and_floor_witness:
  "Schedule_offline_work 2 \<in> set (snd (hotplug_work_fn capped_board (running [True, True, True, False] 19 2 0)))
   \<and> 1 \<le> maxcoreslimit (hotplug_tuners_ins (running [True, True, True, False] 19 2 0))
   \<and> maxcoreslimit (hotplug_tuners_ins (running [True, True, True, False] 19 2 0)) < int NR_CPUS
   \<and> maxcoreslimit (hotplug_tuners_ins (running [True, True, True, False] 19 2 0)) \<le> int 2
   \<and> list_all core0_online capped_run
   \<and> online (od_hotplug_cpuinfo capped_start 0) = 1
   \<and> snd (run capped_run capped_start)
       = [Schedule_offline_work 2, Schedule_hotplug_work 60000, Cpu_down 2]
   \<and> Cpu_down 0 \<notin> set (snd (run capped_run capped_start))
   \<and> online (od_hotplug_cpuinfo (fst (run capped_run capped_start)) 0) = 1
   \<and> cpu_online capped_board 0
   \<and> online (od_hotplug_cpuinfo (fst (cpus_hotplugging True capped_board static_state)) 0) = 1"
proof -
  have a: "snd (hotplug_work_fn capped_board (running [True, True, True, False] 19 2 0))
       = [Schedule_offline_work 2, Schedule_hotplug_work 60000]"
    by (simp add: loop_defs example_defs capped_board_def Let_def)
  then have f: "Schedule_offline_work 2 \<in> set (snd (hotplug_work_fn capped_board (running [True, True, True, False] 19 2 0)))"
    by simp
  have e: "maxcoreslimit (hotplug_tuners_ins (running [True, True, True, False] 19 2 0)) = 2"
    by (simp add: example_defs)
  have c: "cpu_online capped_board 0" "list_all core0_online capped_run"
    by (simp_all add: capped_run_def capped_board_def board_def)
  have o: "online (od_hotplug_cpuinfo capped_start 0) = 1"
    by (simp add: capped_start_def example_defs loop_defs)
  have r: "snd (run capped_run capped_start)
       = [Schedule_offline_work 2, Schedule_hotplug_work 60000, Cpu_down 2]"
    by (simp add: capped_run_def capped_start_def loop_defs example_defs capped_board_def
        cpu_offline_work_fn_def Let_def)
  from C7_core0_kept_and_floor
         [where c = 2 and p = capped_board and s = "running [True, True, True, False] 19 2 0"
            and es = capped_run and ?s0.0 = capped_start and ?p1.0 = capped_board
            and ?s1.0 = static_state]
    f e c o r
  show ?thesis by (simp add: NR_CPUS_def)
qed

end
